theory Spec2Isabelle
  imports Main "HOL-Library.AList"
begin

section \<open>Values of a parsed JSON document\<close>

text \<open>
  \<^verbatim>\<open>loadDatabase\<close> returns \<^verbatim>\<open>JSON.parse(data) as Database\<close>: the cast is erased
  when the program runs, so the value the rest of the program works on is whatever the
  document holds. The model therefore works on JSON values, not on a record of the
  declared fields. An object is its list of properties in enumeration order. Numbers are
  integers (fractions and exponents are not modelled); strings are byte strings, the
  UTF-8 form of the JavaScript string. \<open>None\<close> of type \<open>jsval\<close> is \<^verbatim>\<open>undefined\<close>.
\<close>

datatype json =
    JNull
  | JBool bool
  | JNum int
  | JStr string
  | JArr "json list"
  | JObj "(string \<times> json) list"

type_synonym jsval = "json option"

datatype js_error =
    Error string
  | TypeError
  | SyntaxError
  | SystemError string
  | RemoteError string

text \<open>
  A statement completes normally, throws, or ends the process (\<^verbatim>\<open>process.exit\<close>).
  Expressions without effects return \<open>js_error + 'a\<close>.
\<close>

datatype 'a completion = Normal 'a | Throw js_error | Exit nat

definition bindE :: "js_error + 'a \<Rightarrow> ('a \<Rightarrow> js_error + 'b) \<Rightarrow> js_error + 'b" where
  "bindE m f = (case m of Inl e \<Rightarrow> Inl e | Inr x \<Rightarrow> f x)"

subsection \<open>The JavaScript operations the program applies to these values\<close>

text \<open>
  Reading a property: a TypeError on \<^verbatim>\<open>undefined\<close> and \<^verbatim>\<open>null\<close>, the own property of
  an object, \<^verbatim>\<open>length\<close> of an array or a string, \<^verbatim>\<open>undefined\<close> otherwise. The program
  reads only the names \<^verbatim>\<open>clips\<close>, \<^verbatim>\<open>length\<close>, \<^verbatim>\<open>posted\<close>, \<^verbatim>\<open>id\<close>, \<^verbatim>\<open>filename\<close>,
  \<^verbatim>\<open>quote\<close>, \<^verbatim>\<open>character\<close> and \<^verbatim>\<open>description\<close>, none of which a prototype defines,
  so inherited properties and array indices are left out.
\<close>

fun get_prop :: "jsval \<Rightarrow> string \<Rightarrow> js_error + jsval" where
  "get_prop None k = Inl TypeError"
| "get_prop (Some JNull) k = Inl TypeError"
| "get_prop (Some (JObj kvs)) k = Inr (map_of kvs k)"
| "get_prop (Some (JArr xs)) k =
     Inr (if k = ''length'' then Some (JNum (int (length xs))) else None)"
| "get_prop (Some (JStr s)) k =
     Inr (if k = ''length'' then Some (JNum (int (length s))) else None)"
| "get_prop (Some (JBool b)) k = Inr None"
| "get_prop (Some (JNum n)) k = Inr None"

text \<open>
  Assigning a property (the module is strict code): an object's property is replaced
  where it stands or appended; a named property of an array is invisible to
  \<^verbatim>\<open>JSON.stringify\<close> and never read again, so the array is returned as it is; on any
  other value the assignment throws a TypeError.
\<close>

fun set_prop :: "json \<Rightarrow> string \<Rightarrow> json \<Rightarrow> js_error + json" where
  "set_prop (JObj kvs) k v = Inr (JObj (AList.update k v kvs))"
| "set_prop (JArr xs) k v = Inr (JArr xs)"
| "set_prop JNull k v = Inl TypeError"
| "set_prop (JBool b) k v = Inl TypeError"
| "set_prop (JNum n) k v = Inl TypeError"
| "set_prop (JStr s) k v = Inl TypeError"

fun truthy :: "jsval \<Rightarrow> bool" where
  "truthy None = False"
| "truthy (Some JNull) = False"
| "truthy (Some (JBool b)) = b"
| "truthy (Some (JNum n)) = (n \<noteq> 0)"
| "truthy (Some (JStr s)) = (s \<noteq> [])"
| "truthy (Some (JArr xs)) = True"
| "truthy (Some (JObj kvs)) = True"

text \<open>
  \<^verbatim>\<open>===\<close> compares primitive values by type and value. Objects and arrays are compared
  by reference in JavaScript, which a value has not; they are compared by structure
  here. The declared type of an identifier is \<^verbatim>\<open>string\<close>, and every theorem that
  depends on this comparison assumes identifiers are strings.
\<close>

definition strict_equals :: "jsval \<Rightarrow> jsval \<Rightarrow> bool" where
  "strict_equals a b = (a = b)"

fun digit_char :: "nat \<Rightarrow> char" where
  "digit_char n = char_of (48 + n)"

fun show_nat :: "nat \<Rightarrow> string" where
  "show_nat n = (if n < 10 then [digit_char n] else show_nat (n div 10) @ [digit_char (n mod 10)])"

declare show_nat.simps [simp del]

definition show_int :: "int \<Rightarrow> string" where
  "show_int i = (if i < 0 then CHR ''-'' # show_nat (nat (- i)) else show_nat (nat i))"

text \<open>
  The string a template literal substitutes for a value. An object prints as
  \<^verbatim>\<open>[object Object]\<close>, unless it has an own property \<^verbatim>\<open>toString\<close> (never a function
  in parsed JSON), in which case the conversion throws a TypeError; an array prints its
  elements joined by commas, \<^verbatim>\<open>null\<close> as the empty string.
\<close>

fun to_string_json :: "json \<Rightarrow> js_error + string"
  and join_elements :: "json list \<Rightarrow> js_error + string" where
  "to_string_json JNull = Inr ''null''"
| "to_string_json (JBool b) = Inr (if b then ''true'' else ''false'')"
| "to_string_json (JNum n) = Inr (show_int n)"
| "to_string_json (JStr s) = Inr s"
| "to_string_json (JArr xs) = join_elements xs"
| "to_string_json (JObj kvs) =
     (if ''toString'' \<in> fst ` set kvs then Inl TypeError else Inr ''[object Object]'')"
| "join_elements [] = Inr []"
| "join_elements (x # xs) =
     (case (if x = JNull then Inr [] else to_string_json x) of
        Inl e \<Rightarrow> Inl e
      | Inr s \<Rightarrow>
          (if xs = [] then Inr s
           else case join_elements xs of Inl e \<Rightarrow> Inl e | Inr t \<Rightarrow> Inr (s @ '','' @ t)))"

definition to_string :: "jsval \<Rightarrow> js_error + string" where
  "to_string v = (case v of None \<Rightarrow> Inr ''undefined'' | Some j \<Rightarrow> to_string_json j)"

text \<open>
  \<^verbatim>\<open>Array.prototype.find\<close> and \<^verbatim>\<open>filter\<close>, with a callback that may throw. Calling
  either on a value that is not an array throws a TypeError.
\<close>

fun array_find_index :: "(json \<Rightarrow> js_error + bool) \<Rightarrow> json list \<Rightarrow> js_error + nat option" where
  "array_find_index p [] = Inr None"
| "array_find_index p (x # xs) =
     (case p x of
        Inl e \<Rightarrow> Inl e
      | Inr True \<Rightarrow> Inr (Some 0)
      | Inr False \<Rightarrow>
          (case array_find_index p xs of
             Inl e \<Rightarrow> Inl e
           | Inr None \<Rightarrow> Inr None
           | Inr (Some i) \<Rightarrow> Inr (Some (Suc i))))"

definition array_find :: "(json \<Rightarrow> js_error + bool) \<Rightarrow> json list \<Rightarrow> js_error + jsval" where
  "array_find p xs =
     (case array_find_index p xs of
        Inl e \<Rightarrow> Inl e
      | Inr None \<Rightarrow> Inr None
      | Inr (Some i) \<Rightarrow> Inr (Some (xs ! i)))"

fun array_filter :: "(json \<Rightarrow> js_error + bool) \<Rightarrow> json list \<Rightarrow> js_error + json list" where
  "array_filter p [] = Inr []"
| "array_filter p (x # xs) =
     (case p x of
        Inl e \<Rightarrow> Inl e
      | Inr b \<Rightarrow>
          (case array_filter p xs of
             Inl e \<Rightarrow> Inl e
           | Inr ys \<Rightarrow> Inr (if b then x # ys else ys)))"

fun array_of :: "jsval \<Rightarrow> js_error + json list" where
  "array_of (Some (JArr xs)) = Inr xs"
| "array_of v = Inl TypeError"

section \<open>The platform and the world\<close>

text \<open>
  What the program calls and does not define: the built-ins \<^verbatim>\<open>JSON.parse\<close>,
  \<^verbatim>\<open>JSON.stringify(_, null, 2)\<close> and \<^verbatim>\<open>Date.prototype.toISOString\<close>, the remote
  service behind \<^verbatim>\<open>AtpAgent\<close> (each reply comes with the milliseconds it took), and
  the outcome of a disk write. They are parameters of the model. Time is the number of
  milliseconds since the epoch, an integer.
\<close>

type_synonym blob = string

record post_record =
  post_text :: string
  embed_type :: string
  embed_video :: blob
  embed_alt :: json
  createdAt :: string

datatype write_outcome = Written | Interrupted nat | Refused

record platform =
  JSON_parse :: "string \<Rightarrow> json option"
  JSON_stringify :: "json \<Rightarrow> string"
  toISOString :: "int \<Rightarrow> string"
  login_reply :: "string option \<Rightarrow> string option \<Rightarrow> nat \<times> js_error option"
  upload_reply :: "string \<Rightarrow> string \<Rightarrow> nat \<times> (js_error + blob)"
  post_reply :: "post_record \<Rightarrow> nat \<times> js_error option"
  write_reply :: "string \<Rightarrow> string \<Rightarrow> write_outcome"

text \<open>
  The world a run changes: the environment variables, the files (a path holds a regular
  file with its content, or a directory), the clock in milliseconds, and the trace of
  calls to the remote service and of file writes, each with whether it succeeded.
\<close>

datatype entry = File string | Directory

datatype request =
    Login "string option" "string option"
  | UploadBlob string string
  | CreatePost post_record
  | WriteFile string string

type_synonym event = "request \<times> bool"

record world =
  env :: "string \<Rightarrow> string option"
  fs :: "string \<Rightarrow> entry option"
  clock :: int
  trace :: "event list"

definition existsSync :: "world \<Rightarrow> string \<Rightarrow> bool" where
  "existsSync w p = (fs w p \<noteq> None)"

definition readFileSync :: "world \<Rightarrow> string \<Rightarrow> js_error + string" where
  "readFileSync w p =
     (case fs w p of
        None \<Rightarrow> Inl (SystemError ''ENOENT'')
      | Some Directory \<Rightarrow> Inl (SystemError ''EISDIR'')
      | Some (File s) \<Rightarrow> Inr s)"

text \<open>
  \<^verbatim>\<open>writeFileSync\<close> opens the file for writing, which empties it, and then writes the
  data. The write may be refused before the file is opened (the file stays as it was),
  or be interrupted after \<open>k\<close> bytes (the file keeps those bytes); both throw.
\<close>

definition writeFileSync :: "platform \<Rightarrow> string \<Rightarrow> string \<Rightarrow> world \<Rightarrow> unit completion \<times> world" where
  "writeFileSync pf p d w =
     (if fs w p = Some Directory
      then (Throw (SystemError ''EISDIR''), w\<lparr>trace := trace w @ [(WriteFile p d, False)]\<rparr>)
      else case write_reply pf p d of
        Written \<Rightarrow>
          (Normal (), w\<lparr>fs := (fs w)(p \<mapsto> File d), trace := trace w @ [(WriteFile p d, True)]\<rparr>)
      | Interrupted k \<Rightarrow>
          (Throw (SystemError ''EIO''),
           w\<lparr>fs := (fs w)(p \<mapsto> File (take k d)), trace := trace w @ [(WriteFile p d, False)]\<rparr>)
      | Refused \<Rightarrow>
          (Throw (SystemError ''EACCES''), w\<lparr>trace := trace w @ [(WriteFile p d, False)]\<rparr>))"

section \<open>The program (src/bot.ts)\<close>

definition DATABASE_PATH :: string where
  "DATABASE_PATH = ''./clips_database.json''"

definition CLIPS_FOLDER :: string where
  "CLIPS_FOLDER = ''./clips''"

text \<open>
  \<^verbatim>\<open>loadDatabase\<close> (lines 36-44): \<^verbatim>\<open>process.exit(1)\<close> when the file does not exist;
  otherwise the file is read and parsed, and the parsed value is returned with no check
  of its shape.
\<close>

definition loadDatabase :: "platform \<Rightarrow> world \<Rightarrow> json completion" where
  "loadDatabase pf w =
     (if \<not> existsSync w DATABASE_PATH then Exit 1
      else case readFileSync w DATABASE_PATH of
        Inl e \<Rightarrow> Throw e
      | Inr d \<Rightarrow>
          (case JSON_parse pf d of
             None \<Rightarrow> Throw SyntaxError
           | Some v \<Rightarrow> Normal v))"

text \<open>\<^verbatim>\<open>saveDatabase\<close> (lines 49-51).\<close>

definition saveDatabase :: "platform \<Rightarrow> json \<Rightarrow> world \<Rightarrow> unit completion \<times> world" where
  "saveDatabase pf db w = writeFileSync pf DATABASE_PATH (JSON_stringify pf db) w"

text \<open>
  \<^verbatim>\<open>getNextClip\<close> (lines 56-58): \<^verbatim>\<open>db.clips.find((clip) => !clip.posted) ?? null\<close>;
  \<open>not_posted\<close> is the arrow function.
\<close>

definition not_posted :: "json \<Rightarrow> js_error + bool" where
  "not_posted clip = bindE (get_prop (Some clip) ''posted'') (\<lambda>p. Inr (\<not> truthy p))"

definition getNextClip :: "json \<Rightarrow> js_error + json" where
  "getNextClip db =
     bindE (get_prop (Some db) ''clips'') (\<lambda>clips.
     bindE (array_of clips) (\<lambda>xs.
     bindE (array_find not_posted xs)
       (\<lambda>found. Inr (case found of None \<Rightarrow> JNull | Some clip \<Rightarrow> clip))))"

text \<open>
  \<^verbatim>\<open>markAsPosted\<close> (lines 63-69) changes the found clip in place; the model returns
  the database with that element of \<^verbatim>\<open>clips\<close> replaced. The date is the clock of the
  world when it is called.
\<close>

definition with_clips :: "json \<Rightarrow> json list \<Rightarrow> json" where
  "with_clips db xs = (case db of JObj kvs \<Rightarrow> JObj (AList.update ''clips'' (JArr xs) kvs) | _ \<Rightarrow> db)"

definition has_id :: "jsval \<Rightarrow> json \<Rightarrow> js_error + bool" where
  "has_id clipId c = bindE (get_prop (Some c) ''id'') (\<lambda>i. Inr (strict_equals i clipId))"

definition markAsPosted :: "platform \<Rightarrow> world \<Rightarrow> json \<Rightarrow> jsval \<Rightarrow> js_error + json" where
  "markAsPosted pf w db clipId =
     bindE (get_prop (Some db) ''clips'') (\<lambda>clips.
     bindE (array_of clips) (\<lambda>xs.
     bindE (array_find_index (has_id clipId) xs)
       (\<lambda>found. case found of
          None \<Rightarrow> Inr db
        | Some i \<Rightarrow>
            if \<not> truthy (Some (xs ! i)) then Inr db
            else
              bindE (set_prop (xs ! i) ''posted'' (JBool True)) (\<lambda>c1.
              bindE (set_prop c1 ''post_date'' (JStr (toISOString pf (clock w)))) (\<lambda>c2.
              Inr (with_clips db (xs[i := c2])))))))"

text \<open>
  \<^verbatim>\<open>postClip\<close> (lines 74-113), step by step: log in; build the path of the video and
  throw if nothing is there; read the file; upload it; build the caption; submit the
  post. The em-dash of the caption is the three bytes of its UTF-8 form.
\<close>

definition em_dash :: string where
  "em_dash = [CHR 0xE2, CHR 0x80, CHR 0x94]"

definition make_caption :: "string \<Rightarrow> string \<Rightarrow> string" where
  "make_caption q c = [CHR 0x22] @ q @ [CHR 0x22] @ [CHR 0x0A, CHR 0x0A] @ em_dash @ '' '' @ c"

definition tick :: "nat \<Rightarrow> request \<Rightarrow> bool \<Rightarrow> world \<Rightarrow> world" where
  "tick ms r ok w = w\<lparr>clock := clock w + int ms, trace := trace w @ [(r, ok)]\<rparr>"

definition agent_login :: "platform \<Rightarrow> string option \<Rightarrow> string option \<Rightarrow> world \<Rightarrow> unit completion \<times> world" where
  "agent_login pf u p w =
     (case login_reply pf u p of
        (ms, Some e) \<Rightarrow> (Throw e, tick ms (Login u p) False w)
      | (ms, None) \<Rightarrow> (Normal (), tick ms (Login u p) True w))"

definition agent_uploadBlob :: "platform \<Rightarrow> string \<Rightarrow> string \<Rightarrow> world \<Rightarrow> blob completion \<times> world" where
  "agent_uploadBlob pf d enc w =
     (case upload_reply pf d enc of
        (ms, Inl e) \<Rightarrow> (Throw e, tick ms (UploadBlob d enc) False w)
      | (ms, Inr b) \<Rightarrow> (Normal b, tick ms (UploadBlob d enc) True w))"

definition agent_post :: "platform \<Rightarrow> post_record \<Rightarrow> world \<Rightarrow> unit completion \<times> world" where
  "agent_post pf r w =
     (case post_reply pf r of
        (ms, Some e) \<Rightarrow> (Throw e, tick ms (CreatePost r) False w)
      | (ms, None) \<Rightarrow> (Normal (), tick ms (CreatePost r) True w))"

definition video_path :: "json \<Rightarrow> js_error + string" where
  "video_path clip =
     bindE (get_prop (Some clip) ''filename'') (\<lambda>f.
     bindE (to_string f) (\<lambda>s. Inr (CLIPS_FOLDER @ ''/'' @ s)))"

definition caption_of :: "json \<Rightarrow> js_error + string" where
  "caption_of clip =
     bindE (get_prop (Some clip) ''quote'') (\<lambda>q.
     bindE (to_string q) (\<lambda>qs.
     bindE (get_prop (Some clip) ''character'') (\<lambda>c.
     bindE (to_string c) (\<lambda>cs. Inr (make_caption qs cs)))))"

definition alt_of :: "json \<Rightarrow> js_error + json" where
  "alt_of clip =
     bindE (get_prop (Some clip) ''description'') (\<lambda>d.
       Inr (if truthy d then the d else JStr []))"

definition submit :: "platform \<Rightarrow> json \<Rightarrow> blob \<Rightarrow> world \<Rightarrow> unit completion \<times> world" where
  "submit pf clip b w =
     (case caption_of clip of
        Inl e \<Rightarrow> (Throw e, w)
      | Inr caption \<Rightarrow>
          (case alt_of clip of
             Inl e \<Rightarrow> (Throw e, w)
           | Inr a \<Rightarrow>
               (case agent_post pf
                       \<lparr>post_text = caption, embed_type = ''app.bsky.embed.video'',
                        embed_video = b, embed_alt = a,
                        createdAt = toISOString pf (clock w)\<rparr> w of
                  (Normal u, w') \<Rightarrow>
                    (case bindE (get_prop (Some clip) ''id'') to_string of
                       Inl e \<Rightarrow> (Throw e, w')
                     | Inr s \<Rightarrow> (Normal (), w'))
                | (Throw e, w') \<Rightarrow> (Throw e, w')
                | (Exit n, w') \<Rightarrow> (Exit n, w'))))"

definition postClip :: "platform \<Rightarrow> json \<Rightarrow> world \<Rightarrow> unit completion \<times> world" where
  "postClip pf clip w =
     (case agent_login pf (env w ''BLUESKY_USERNAME'') (env w ''BLUESKY_APP_PASSWORD'') w of
        (Throw e, w1) \<Rightarrow> (Throw e, w1)
      | (Exit n, w1) \<Rightarrow> (Exit n, w1)
      | (Normal u, w1) \<Rightarrow>
          (case video_path clip of
             Inl e \<Rightarrow> (Throw e, w1)
           | Inr videoPath \<Rightarrow>
               if \<not> existsSync w1 videoPath
               then (Throw (Error (''Video file not found: '' @ videoPath)), w1)
               else
                 (case readFileSync w1 videoPath of
                    Inl e \<Rightarrow> (Throw e, w1)
                  | Inr videoData \<Rightarrow>
                      (case agent_uploadBlob pf videoData ''video/mp4'' w1 of
                         (Throw e, w2) \<Rightarrow> (Throw e, w2)
                       | (Exit n, w2) \<Rightarrow> (Exit n, w2)
                       | (Normal b, w2) \<Rightarrow> submit pf clip b w2))))"

text \<open>
  \<^verbatim>\<open>main\<close> (lines 118-164). \<open>main_try\<close> is the body of the \<^verbatim>\<open>try\<close> block: the check
  of the credentials, the load, the statistics (which read \<^verbatim>\<open>db.clips.length\<close> and
  call \<^verbatim>\<open>filter\<close>), the selection, the three values printed for the selected clip, the
  publish, and mark and save. \<open>main\<close> adds the \<^verbatim>\<open>catch\<close>: a thrown error ends the
  process with status 1; a normal return ends it with status 0. Console output is not
  part of the world, but a template that prints a value can throw, which is kept.
\<close>

definition env_set :: "string option \<Rightarrow> bool" where
  "env_set v = (case v of None \<Rightarrow> False | Some s \<Rightarrow> s \<noteq> [])"

definition is_posted :: "json \<Rightarrow> js_error + bool" where
  "is_posted c = bindE (get_prop (Some c) ''posted'') (\<lambda>p. Inr (truthy p))"

definition stats :: "json \<Rightarrow> js_error + (jsval \<times> nat)" where
  "stats db =
     bindE (get_prop (Some db) ''clips'') (\<lambda>clips.
     bindE (get_prop clips ''length'') (\<lambda>total.
     bindE (array_of clips) (\<lambda>xs.
     bindE (array_filter is_posted xs) (\<lambda>ys.
     Inr (total, length ys)))))"

definition announce :: "json \<Rightarrow> js_error + unit" where
  "announce clip =
     bindE (bindE (get_prop (Some clip) ''character'') to_string) (\<lambda>c.
     bindE (bindE (get_prop (Some clip) ''quote'') to_string) (\<lambda>q.
     bindE (bindE (get_prop (Some clip) ''filename'') to_string) (\<lambda>f. Inr ())))"

definition mark_and_save :: "platform \<Rightarrow> json \<Rightarrow> json \<Rightarrow> world \<Rightarrow> unit completion \<times> world" where
  "mark_and_save pf db clip w =
     (case bindE (get_prop (Some clip) ''id'') (markAsPosted pf w db) of
        Inl e \<Rightarrow> (Throw e, w)
      | Inr db' \<Rightarrow> saveDatabase pf db' w)"

definition main_try :: "platform \<Rightarrow> world \<Rightarrow> unit completion \<times> world" where
  "main_try pf w =
     (if \<not> env_set (env w ''BLUESKY_USERNAME'') \<or> \<not> env_set (env w ''BLUESKY_APP_PASSWORD'')
      then (Exit 1, w)
      else case loadDatabase pf w of
        Exit n \<Rightarrow> (Exit n, w)
      | Throw e \<Rightarrow> (Throw e, w)
      | Normal db \<Rightarrow>
          (case stats db of
             Inl e \<Rightarrow> (Throw e, w)
           | Inr s \<Rightarrow>
               (case getNextClip db of
                  Inl e \<Rightarrow> (Throw e, w)
                | Inr clip \<Rightarrow>
                    if \<not> truthy (Some clip) then (Normal (), w)
                    else
                      (case announce clip of
                         Inl e \<Rightarrow> (Throw e, w)
                       | Inr u \<Rightarrow>
                           (case postClip pf clip w of
                              (Normal u, w1) \<Rightarrow> mark_and_save pf db clip w1
                            | (Throw e, w1) \<Rightarrow> (Throw e, w1)
                            | (Exit n, w1) \<Rightarrow> (Exit n, w1))))))"

definition main :: "platform \<Rightarrow> world \<Rightarrow> nat \<times> world" where
  "main pf w =
     (case main_try pf w of
        (Normal u, w') \<Rightarrow> (0, w')
      | (Throw e, w') \<Rightarrow> (1, w')
      | (Exit n, w') \<Rightarrow> (n, w'))"

section \<open>The declared shape of the data\<close>

text \<open>
  The interfaces \<^verbatim>\<open>Clip\<close> and \<^verbatim>\<open>Database\<close> (lines 19-31) as predicates on values: a
  clip is an object whose \<^verbatim>\<open>id\<close>, \<^verbatim>\<open>filename\<close>, \<^verbatim>\<open>quote\<close> and \<^verbatim>\<open>character\<close> are strings,
  whose \<^verbatim>\<open>posted\<close> is a boolean and whose \<^verbatim>\<open>description\<close> and \<^verbatim>\<open>post_date\<close> are absent,
  \<^verbatim>\<open>null\<close> (as the shipped record writes an unset \<^verbatim>\<open>post_date\<close>) or strings; other
  properties are allowed. A queue is a database whose identifiers are distinct.
\<close>

definition is_string :: "jsval \<Rightarrow> bool" where
  "is_string v = (case v of Some (JStr s) \<Rightarrow> True | _ \<Rightarrow> False)"

definition is_boolean :: "jsval \<Rightarrow> bool" where
  "is_boolean v = (case v of Some (JBool b) \<Rightarrow> True | _ \<Rightarrow> False)"

definition is_optional_string :: "jsval \<Rightarrow> bool" where
  "is_optional_string v =
     (case v of None \<Rightarrow> True | Some JNull \<Rightarrow> True | Some (JStr s) \<Rightarrow> True | _ \<Rightarrow> False)"

definition field :: "json \<Rightarrow> string \<Rightarrow> jsval" where
  "field v k = (case v of JObj kvs \<Rightarrow> map_of kvs k | _ \<Rightarrow> None)"

definition is_object :: "json \<Rightarrow> bool" where
  "is_object v = (case v of JObj kvs \<Rightarrow> True | _ \<Rightarrow> False)"

definition is_Clip :: "json \<Rightarrow> bool" where
  "is_Clip c =
     (is_object c \<and> is_string (field c ''id'') \<and> is_string (field c ''filename'')
      \<and> is_string (field c ''quote'') \<and> is_string (field c ''character'')
      \<and> is_optional_string (field c ''description'') \<and> is_boolean (field c ''posted'')
      \<and> is_optional_string (field c ''post_date''))"

definition clips_of :: "json \<Rightarrow> json list" where
  "clips_of db = (case field db ''clips'' of Some (JArr xs) \<Rightarrow> xs | _ \<Rightarrow> [])"

definition is_Database :: "json \<Rightarrow> bool" where
  "is_Database db =
     (case field db ''clips'' of Some (JArr xs) \<Rightarrow> list_all is_Clip xs | _ \<Rightarrow> False)"

definition clip_ids :: "json \<Rightarrow> jsval list" where
  "clip_ids db = map (\<lambda>c. field c ''id'') (clips_of db)"

definition is_Queue :: "json \<Rightarrow> bool" where
  "is_Queue db = (is_Database db \<and> distinct (clip_ids db))"

definition new_events :: "world \<Rightarrow> world \<Rightarrow> event list" where
  "new_events w w' = drop (length (trace w)) (trace w')"

definition is_write :: "event \<Rightarrow> bool" where
  "is_write ev = (case fst ev of WriteFile p d \<Rightarrow> True | _ \<Rightarrow> False)"

definition is_network :: "event \<Rightarrow> bool" where
  "is_network ev = (case fst ev of UploadBlob d enc \<Rightarrow> True | CreatePost r \<Rightarrow> True | _ \<Rightarrow> False)"

section \<open>Reference built-ins\<close>

text \<open>
  Executable versions of the three built-ins, used to run the model on concrete records:
  \<^verbatim>\<open>toISOString\<close> (proleptic Gregorian calendar, UTC), \<^verbatim>\<open>JSON.stringify\<close> with an
  indentation of two spaces, and \<^verbatim>\<open>JSON.parse\<close> for documents whose numbers are
  integers below \<open>2^53\<close> and whose \<^verbatim>\<open>\u\<close> escapes are not surrogates (it rejects
  the others). An object keeps its properties in JavaScript's enumeration order: array
  indices ascending, then the other names as first defined; a repeated name keeps its
  place and takes the later value. The parser's recursion is bounded by a counter that
  starts above twice the length of the text.
\<close>


definition pad :: "nat \<Rightarrow> int \<Rightarrow> string" where
  "pad k n = replicate (k - length (show_int n)) CHR ''0'' @ show_int n"

definition civil_from_days :: "int \<Rightarrow> int \<times> int \<times> int" where
  "civil_from_days days =
     (let z = days + 719468;
          era = z div 146097;
          doe = z mod 146097;
          yoe = (doe - doe div 1460 + doe div 36524 - doe div 146096) div 365;
          doy = doe - (365 * yoe + yoe div 4 - yoe div 100);
          mp = (5 * doy + 2) div 153;
          d = doy - (153 * mp + 2) div 5 + 1;
          m = (if mp < 10 then mp + 3 else mp - 9);
          y = yoe + era * 400 + (if m \<le> 2 then 1 else 0)
      in (y, m, d))"

definition iso_string :: "int \<Rightarrow> string" where
  "iso_string ms =
     (case civil_from_days (ms div 86400000) of (y, m, d) \<Rightarrow>
        (if 0 \<le> y \<and> y \<le> 9999 then pad 4 y
         else (if y < 0 then CHR ''-'' else CHR ''+'') # pad 6 (abs y))
        @ ''-'' @ pad 2 m @ ''-'' @ pad 2 d @ ''T''
        @ pad 2 (ms div 3600000 mod 24) @ '':'' @ pad 2 (ms div 60000 mod 60) @ '':''
        @ pad 2 (ms div 1000 mod 60) @ ''.'' @ pad 3 (ms mod 1000) @ ''Z'')"

definition hex_digit :: "nat \<Rightarrow> char" where
  "hex_digit n = (if n < 10 then char_of (48 + n) else char_of (87 + n))"

definition quote_char :: "char \<Rightarrow> string" where
  "quote_char c =
     (if c = CHR 0x08 then [CHR 0x5C, CHR ''b'']
      else if c = CHR 0x09 then [CHR 0x5C, CHR ''t'']
      else if c = CHR 0x0A then [CHR 0x5C, CHR ''n'']
      else if c = CHR 0x0C then [CHR 0x5C, CHR ''f'']
      else if c = CHR 0x0D then [CHR 0x5C, CHR ''r'']
      else if c = CHR 0x22 then [CHR 0x5C, CHR 0x22]
      else if c = CHR 0x5C then [CHR 0x5C, CHR 0x5C]
      else if (of_char c :: nat) < 32
        then [CHR 0x5C, CHR ''u'', CHR ''0'', CHR ''0'', hex_digit (of_char c div 16), hex_digit (of_char c mod 16)]
      else [c])"

definition quote_string :: "string \<Rightarrow> string" where
  "quote_string s = [CHR 0x22] @ concat (map quote_char s) @ [CHR 0x22]"

fun stringify_value :: "string \<Rightarrow> json \<Rightarrow> string"
  and stringify_elements :: "string \<Rightarrow> json list \<Rightarrow> string"
  and stringify_members :: "string \<Rightarrow> (string \<times> json) list \<Rightarrow> string" where
  "stringify_value ind JNull = ''null''"
| "stringify_value ind (JBool b) = (if b then ''true'' else ''false'')"
| "stringify_value ind (JNum n) = show_int n"
| "stringify_value ind (JStr s) = quote_string s"
| "stringify_value ind (JArr xs) =
     (if xs = [] then ''[]''
      else ''['' @ [CHR 0x0A] @ ind @ ''  '' @ stringify_elements (ind @ ''  '') xs @ [CHR 0x0A] @ ind @ '']'')"
| "stringify_value ind (JObj kvs) =
     (if kvs = [] then ''{}''
      else ''{'' @ [CHR 0x0A] @ ind @ ''  '' @ stringify_members (ind @ ''  '') kvs @ [CHR 0x0A] @ ind @ ''}'')"
| "stringify_elements ind [] = []"
| "stringify_elements ind (x # xs) =
     stringify_value ind x @ (if xs = [] then [] else '','' @ [CHR 0x0A] @ ind @ stringify_elements ind xs)"
| "stringify_members ind [] = []"
| "stringify_members ind ((k, v) # kvs) =
     quote_string k @ '': '' @ stringify_value ind v
     @ (if kvs = [] then [] else '','' @ [CHR 0x0A] @ ind @ stringify_members ind kvs)"

definition ecma_stringify :: "json \<Rightarrow> string" where
  "ecma_stringify v = stringify_value [] v"

definition is_ws :: "char \<Rightarrow> bool" where
  "is_ws c = (c = CHR 0x20 \<or> c = CHR 0x09 \<or> c = CHR 0x0A \<or> c = CHR 0x0D)"

definition skip_ws :: "string \<Rightarrow> string" where
  "skip_ws s = dropWhile is_ws s"

definition is_digit :: "char \<Rightarrow> bool" where
  "is_digit c = (48 \<le> (of_char c :: nat) \<and> (of_char c :: nat) \<le> 57)"

definition digits_value :: "string \<Rightarrow> int" where
  "digits_value ds = foldl (\<lambda>n c. 10 * n + (of_char c - 48)) 0 ds"

definition hex_value :: "char \<Rightarrow> nat option" where
  "hex_value c =
     (let n = (of_char c :: nat) in
      if 48 \<le> n \<and> n \<le> 57 then Some (n - 48)
      else if 97 \<le> n \<and> n \<le> 102 then Some (n - 87)
      else if 65 \<le> n \<and> n \<le> 70 then Some (n - 55)
      else None)"

definition utf8 :: "nat \<Rightarrow> string option" where
  "utf8 n =
     (if n < 128 then Some [char_of n]
      else if n < 2048 then Some [char_of (192 + n div 64), char_of (128 + n mod 64)]
      else if 55296 \<le> n \<and> n < 57344 then None
      else Some [char_of (224 + n div 4096), char_of (128 + n div 64 mod 64), char_of (128 + n mod 64)])"

definition unicode_escape :: "string \<Rightarrow> string option" where
  "unicode_escape hs =
     (case map hex_value hs of
        [Some a, Some b, Some c, Some d] \<Rightarrow> utf8 (((a * 16 + b) * 16 + c) * 16 + d)
      | _ \<Rightarrow> None)"

definition simple_escape :: "char \<Rightarrow> char option" where
  "simple_escape e =
     (if e = CHR 0x22 then Some (CHR 0x22)
      else if e = CHR 0x5C then Some (CHR 0x5C)
      else if e = CHR ''/'' then Some (CHR ''/'')
      else if e = CHR ''b'' then Some (CHR 0x08)
      else if e = CHR ''f'' then Some (CHR 0x0C)
      else if e = CHR ''n'' then Some (CHR 0x0A)
      else if e = CHR ''r'' then Some (CHR 0x0D)
      else if e = CHR ''t'' then Some (CHR 0x09)
      else None)"

fun parse_string_chars :: "string \<Rightarrow> string \<Rightarrow> (string \<times> string) option" where
  "parse_string_chars acc [] = None"
| "parse_string_chars acc (c # cs) =
     (if c = CHR 0x22 then Some (acc, cs)
      else if c = CHR 0x5C then
        (case cs of
           [] \<Rightarrow> None
         | e # es \<Rightarrow>
             if e = CHR ''u'' then
               (case unicode_escape (take 4 es) of
                  None \<Rightarrow> None
                | Some u \<Rightarrow> parse_string_chars (acc @ u) (drop 4 es))
             else
               (case simple_escape e of
                  None \<Rightarrow> None
                | Some d \<Rightarrow> parse_string_chars (acc @ [d]) es))
      else if (of_char c :: nat) < 32 then None
      else parse_string_chars (acc @ [c]) cs)"

definition parse_number :: "string \<Rightarrow> (json \<times> string) option" where
  "parse_number s =
     (let neg = (s \<noteq> [] \<and> hd s = CHR ''-'');
          t = (if neg then tl s else s);
          ds = (if t \<noteq> [] \<and> hd t = CHR ''0'' then ''0'' else takeWhile is_digit t);
          r = drop (length ds) t
      in if ds = [] then None
         else if r \<noteq> [] \<and> hd r \<in> {CHR ''.'', CHR ''e'', CHR ''E''} then None
         else if 9007199254740992 < digits_value ds then None
         else Some (JNum (if neg then - digits_value ds else digits_value ds), r))"

definition is_array_index :: "string \<Rightarrow> bool" where
  "is_array_index k =
     (k \<noteq> [] \<and> list_all is_digit k \<and> (k = ''0'' \<or> hd k \<noteq> CHR ''0'')
      \<and> length k \<le> 10 \<and> digits_value k < 4294967295)"

fun insert_index :: "string \<Rightarrow> json \<Rightarrow> (string \<times> json) list \<Rightarrow> (string \<times> json) list" where
  "insert_index k v [] = [(k, v)]"
| "insert_index k v (p # ps) =
     (if is_array_index (fst p) \<and> digits_value (fst p) < digits_value k
      then p # insert_index k v ps else (k, v) # p # ps)"

definition define_property :: "(string \<times> json) list \<Rightarrow> string \<Rightarrow> json \<Rightarrow> (string \<times> json) list" where
  "define_property kvs k v =
     (if k \<in> fst ` set kvs then AList.update k v kvs
      else if is_array_index k then insert_index k v kvs
      else kvs @ [(k, v)])"

fun parse_value :: "nat \<Rightarrow> string \<Rightarrow> (json \<times> string) option"
  and parse_elements :: "nat \<Rightarrow> json list \<Rightarrow> string \<Rightarrow> (json \<times> string) option"
  and parse_members :: "nat \<Rightarrow> (string \<times> json) list \<Rightarrow> string \<Rightarrow> (json \<times> string) option" where
  "parse_value 0 s = None"
| "parse_value (Suc n) s =
     (case skip_ws s of
        [] \<Rightarrow> None
      | c # cs \<Rightarrow>
          if c = CHR ''{'' then
            (if skip_ws cs \<noteq> [] \<and> hd (skip_ws cs) = CHR ''}'' then Some (JObj [], tl (skip_ws cs))
             else parse_members n [] cs)
          else if c = CHR ''['' then
            (if skip_ws cs \<noteq> [] \<and> hd (skip_ws cs) = CHR '']'' then Some (JArr [], tl (skip_ws cs))
             else parse_elements n [] cs)
          else if c = CHR 0x22 then
            (case parse_string_chars [] cs of
               None \<Rightarrow> None
             | Some (str, r) \<Rightarrow> Some (JStr str, r))
          else if take 4 (c # cs) = ''true'' then Some (JBool True, drop 4 (c # cs))
          else if take 5 (c # cs) = ''false'' then Some (JBool False, drop 5 (c # cs))
          else if take 4 (c # cs) = ''null'' then Some (JNull, drop 4 (c # cs))
          else parse_number (c # cs))"
| "parse_elements 0 acc s = None"
| "parse_elements (Suc n) acc s =
     (case parse_value n s of
        None \<Rightarrow> None
      | Some (v, r) \<Rightarrow>
          (case skip_ws r of
             [] \<Rightarrow> None
           | c # cs \<Rightarrow>
               if c = CHR '','' then parse_elements n (acc @ [v]) cs
               else if c = CHR '']'' then Some (JArr (acc @ [v]), cs)
               else None))"
| "parse_members 0 acc s = None"
| "parse_members (Suc n) acc s =
     (case skip_ws s of
        [] \<Rightarrow> None
      | q # s1 \<Rightarrow>
          if q \<noteq> CHR 0x22 then None
          else
            (case parse_string_chars [] s1 of
               None \<Rightarrow> None
             | Some (k, s2) \<Rightarrow>
                 (case skip_ws s2 of
                    [] \<Rightarrow> None
                  | c # s3 \<Rightarrow>
                      if c \<noteq> CHR '':'' then None
                      else
                        (case parse_value n s3 of
                           None \<Rightarrow> None
                         | Some (v, r) \<Rightarrow>
                             (case skip_ws r of
                                [] \<Rightarrow> None
                              | d # cs \<Rightarrow>
                                  if d = CHR '','' then parse_members n (define_property acc k v) cs
                                  else if d = CHR ''}'' then Some (JObj (define_property acc k v), cs)
                                  else None)))))"

definition ecma_parse :: "string \<Rightarrow> json option" where
  "ecma_parse s =
     (case parse_value (2 * length s + 2) s of
        None \<Rightarrow> None
      | Some (v, r) \<Rightarrow> if skip_ws r = [] then Some v else None)"


definition ref_platform :: platform where
  "ref_platform =
     \<lparr>JSON_parse = ecma_parse, JSON_stringify = ecma_stringify, toISOString = iso_string,
      login_reply = (\<lambda>u p. (120, None)),
      upload_reply = (\<lambda>d enc. (900, Inr ''blob-1'')),
      post_reply = (\<lambda>r. (80, None)),
      write_reply = (\<lambda>p d. Written)\<rparr>"

section \<open>A concrete record and world\<close>

text \<open>
  The scenario of the specification: three clips, the first two posted, the third not,
  with an extra property on a clip and at the root of the document. The world holds the
  record as \<^verbatim>\<open>JSON.stringify\<close> prints it, the video of the third clip, the two
  credentials, and a clock at 2024-11-02T20:00:00.000Z.
\<close>

definition example_clip :: "string \<Rightarrow> string \<Rightarrow> string \<Rightarrow> string \<Rightarrow> json \<Rightarrow> json \<Rightarrow> json" where
  "example_clip i f ch q p d =
     JObj [(''id'', JStr i), (''filename'', JStr f), (''season'', JNum 1), (''character'', JStr ch),
           (''quote'', JStr q), (''posted'', p), (''post_date'', d)]"

definition banana_clip :: json where
  "banana_clip =
     JObj [(''id'', JStr ''ad_s01e01_003''), (''filename'', JStr ''banana_stand_money.mp4''),
           (''season'', JNum 1), (''character'', JStr ''George Sr.''),
           (''quote'', JStr (''There'' @ [CHR 0x27] @ ''s always money in the banana stand'')),
           (''description'', JStr ''George Sr. tells Michael about the banana stand''),
           (''posted'', JBool False), (''post_date'', JNull)]"

definition posted_clips :: "json list" where
  "posted_clips =
     [example_clip ''ad_s01e01_001'' ''chicken_dance.mp4'' ''Gob'' ''Come on!''
        (JBool True) (JStr ''2024-10-31T15:00:00.000Z''),
      example_clip ''ad_s01e01_002'' ''her.mp4'' ''Michael'' ''Her?''
        (JBool True) (JStr ''2024-11-01T15:00:00.000Z'')]"

definition example_db :: json where
  "example_db = JObj [(''clips'', JArr (posted_clips @ [banana_clip])), (''version'', JNum 2)]"

definition world_with :: "string \<Rightarrow> world" where
  "world_with record_text =
     \<lparr>env = [''BLUESKY_USERNAME'' \<mapsto> ''bot.bsky.social'', ''BLUESKY_APP_PASSWORD'' \<mapsto> ''abcd-efgh''],
      fs = [''./clips_database.json'' \<mapsto> File record_text,
            ''./clips/banana_stand_money.mp4'' \<mapsto> File ''mp4-bytes''],
      clock = 1730577600000,
      trace = []\<rparr>"

definition marked :: "string \<Rightarrow> json \<Rightarrow> json" where
  "marked d c =
     (case c of
        JObj kvs \<Rightarrow> JObj (AList.update ''post_date'' (JStr d) (AList.update ''posted'' (JBool True) kvs))
      | _ \<Rightarrow> c)"

definition example_db_after :: json where
  "example_db_after =
     JObj [(''clips'', JArr (posted_clips @ [marked ''2024-11-02T20:00:01.100Z'' banana_clip])),
           (''version'', JNum 2)]"

definition example_text :: string where
  "example_text = ecma_stringify example_db"

definition example_world :: world where
  "example_world = world_with example_text"

definition no_media_world :: world where
  "no_media_world = example_world\<lparr>fs := [''./clips_database.json'' \<mapsto> File example_text]\<rparr>"

definition duplicate_text :: string where
  "duplicate_text = ''{\"clips\":[{\"id\":\"a\",\"posted\":true},{\"id\":\"a\",\"posted\":false}]}''"

definition duplicate_db :: json where
  "duplicate_db =
     JObj [(''clips'', JArr [JObj [(''id'', JStr ''a''), (''posted'', JBool True)],
                             JObj [(''id'', JStr ''a''), (''posted'', JBool False)]])]"


definition compact_db :: json where
  "compact_db = JObj [(''clips'', JArr []), (''tags'', JArr [JStr ''a'', JStr ''b''])]"

definition rejecting_login :: platform where
  "rejecting_login =
     ref_platform\<lparr>login_reply := (\<lambda>u p. (50, Some (RemoteError ''Invalid identifier or password'')))\<rparr>"

definition failing_disk :: platform where
  "failing_disk = ref_platform\<lparr>write_reply := (\<lambda>p d. Interrupted 10)\<rparr>"

section \<open>Basic facts\<close>

lemma bindE_Inr: "bindE (Inr x) f = f x"
  by (simp add: bindE_def)

lemma bindE_Inl: "bindE (Inl e) f = Inl e"
  by (simp add: bindE_def)

lemma array_find_index_none:
  "\<forall>x\<in>set xs. p x = Inr False \<Longrightarrow> array_find_index p xs = Inr None"
  by (induction xs) auto

lemma array_find_index_first:
  "\<forall>x\<in>set pre. p x = Inr False \<Longrightarrow> p c = Inr True \<Longrightarrow>
   array_find_index p (pre @ c # post) = Inr (Some (length pre))"
  by (induction pre) auto

lemma array_find_none:
  "\<forall>x\<in>set xs. p x = Inr False \<Longrightarrow> array_find p xs = Inr None"
  by (simp add: array_find_def array_find_index_none)

lemma array_find_first:
  "\<forall>x\<in>set pre. p x = Inr False \<Longrightarrow> p c = Inr True \<Longrightarrow>
   array_find p (pre @ c # post) = Inr (Some c)"
  by (simp add: array_find_def array_find_index_first)

lemma split_first:
  "\<exists>x\<in>set xs. q x \<Longrightarrow> \<exists>pre c post. xs = pre @ c # post \<and> (\<forall>p\<in>set pre. \<not> q p) \<and> q c"
  by (metis split_list_first_prop)

lemma field_obj: "field (JObj kvs) k = map_of kvs k"
  by (simp add: field_def)

lemma get_prop_field: "is_object c \<Longrightarrow> get_prop (Some c) k = Inr (field c k)"
  by (cases c) (simp_all add: is_object_def field_def)

lemma is_Clip_object: "is_Clip c \<Longrightarrow> is_object c"
  by (simp add: is_Clip_def)

lemma is_Clip_posted: "is_Clip c \<Longrightarrow> \<exists>b. field c ''posted'' = Some (JBool b)"
  by (auto simp: is_Clip_def is_boolean_def split: option.splits json.splits)

lemma is_Clip_id: "is_Clip c \<Longrightarrow> \<exists>s. field c ''id'' = Some (JStr s)"
  by (auto simp: is_Clip_def is_string_def split: option.splits json.splits)

lemma is_Database_clips:
  "is_Database db \<Longrightarrow> get_prop (Some db) ''clips'' = Inr (Some (JArr (clips_of db)))
     \<and> list_all is_Clip (clips_of db) \<and> is_object db"
  by (cases db) (auto simp: is_Database_def clips_of_def field_def is_object_def split: option.splits json.splits)

lemma not_posted_clip:
  "is_Clip c \<Longrightarrow> not_posted c = Inr (field c ''posted'' = Some (JBool False))"
  using is_Clip_posted[of c] by (auto simp: not_posted_def get_prop_field is_Clip_object bindE_def)

lemma getNextClip_Database:
  "is_Database db \<Longrightarrow> getNextClip db =
     bindE (array_find not_posted (clips_of db)) (\<lambda>found. Inr (case found of None \<Rightarrow> JNull | Some clip \<Rightarrow> clip))"
  using is_Database_clips[of db] by (simp add: getNextClip_def bindE_def)

lemma has_id_clip: "is_Clip c \<Longrightarrow> has_id clipId c = Inr (field c ''id'' = clipId)"
  by (simp add: has_id_def get_prop_field is_Clip_object bindE_def strict_equals_def)

lemma clips_of_with_clips: "is_object db \<Longrightarrow> clips_of (with_clips db xs) = xs"
  by (cases db) (simp_all add: is_object_def with_clips_def clips_of_def field_def AList.update_conv')

lemma field_with_clips: "k \<noteq> ''clips'' \<Longrightarrow> field (with_clips db xs) k = field db k"
  by (cases db) (simp_all add: with_clips_def field_def AList.update_conv')

lemma is_object_with_clips: "is_object db \<Longrightarrow> is_object (with_clips db xs)"
  by (cases db) (simp_all add: is_object_def with_clips_def)

lemma marked_fields:
  "is_object c \<Longrightarrow> field (marked d c) k =
     (if k = ''post_date'' then Some (JStr d) else if k = ''posted'' then Some (JBool True) else field c k)"
  by (cases c) (simp_all add: is_object_def marked_def field_def AList.update_conv')

lemma set_props_marked:
  "is_object c \<Longrightarrow>
   bindE (set_prop c ''posted'' (JBool True)) (\<lambda>c1.
     bindE (set_prop c1 ''post_date'' (JStr d)) f) = f (marked d c)"
  by (cases c) (simp_all add: is_object_def marked_def bindE_def)

lemma truthy_object: "is_object c \<Longrightarrow> truthy (Some c)"
  by (cases c) (simp_all add: is_object_def)

lemma markAsPosted_Database:
  "is_Database db \<Longrightarrow> markAsPosted pf w db clipId =
     bindE (array_find_index (has_id clipId) (clips_of db))
       (\<lambda>found. case found of
          None \<Rightarrow> Inr db
        | Some i \<Rightarrow>
            if \<not> truthy (Some (clips_of db ! i)) then Inr db
            else
              bindE (set_prop (clips_of db ! i) ''posted'' (JBool True)) (\<lambda>c1.
              bindE (set_prop c1 ''post_date'' (JStr (toISOString pf (clock w)))) (\<lambda>c2.
              Inr (with_clips db ((clips_of db)[i := c2])))))"
  using is_Database_clips[of db] by (simp add: markAsPosted_def bindE_def)

lemma markAsPosted_no_match:
  assumes "is_Database db" "\<forall>c\<in>set (clips_of db). field c ''id'' \<noteq> clipId"
  shows "markAsPosted pf w db clipId = Inr db"
proof -
  have "\<forall>c\<in>set (clips_of db). has_id clipId c = Inr False"
    using assms is_Database_clips[of db] by (auto simp: has_id_clip list_all_iff)
  then show ?thesis
    by (simp add: markAsPosted_Database[OF assms(1)] array_find_index_none bindE_def)
qed

lemma markAsPosted_first_match:
  assumes "is_Database db" "clips_of db = pre @ c # post"
    "\<forall>p\<in>set pre. field p ''id'' \<noteq> clipId" "field c ''id'' = clipId"
  shows "markAsPosted pf w db clipId =
     Inr (with_clips db (pre @ marked (toISOString pf (clock w)) c # post))"
proof -
  have clips: "\<forall>c\<in>set (clips_of db). is_Clip c"
    using is_Database_clips[OF assms(1)] by (simp add: list_all_iff)
  have "\<forall>p\<in>set pre. has_id clipId p = Inr False"
    using assms clips by (auto simp: has_id_clip)
  moreover have c: "is_Clip c" using clips assms(2) by simp
  then have "has_id clipId c = Inr True"
    using assms by (simp add: has_id_clip)
  ultimately have "array_find_index (has_id clipId) (clips_of db) = Inr (Some (length pre))"
    using assms(2) by (simp add: array_find_index_first)
  then show ?thesis
    using is_Clip_object[OF c]
    by (simp add: markAsPosted_Database[OF assms(1)] assms(2) bindE_Inr truthy_object set_props_marked)
qed


lemma agent_login_run:
  "agent_login pf u p w = (r, w') \<Longrightarrow>
     fs w' = fs w \<and> env w' = env w \<and> clock w \<le> clock w'
     \<and> trace w' = trace w @ [(Login u p, r = Normal ())] \<and> (\<forall>n. r \<noteq> Exit n)"
  by (auto simp: agent_login_def tick_def split: prod.splits option.splits)

lemma agent_uploadBlob_run:
  "agent_uploadBlob pf d enc w = (r, w') \<Longrightarrow>
     fs w' = fs w \<and> env w' = env w \<and> clock w \<le> clock w'
     \<and> trace w' = trace w @ [(UploadBlob d enc, \<exists>b. r = Normal b)] \<and> (\<forall>n. r \<noteq> Exit n)"
  by (auto simp: agent_uploadBlob_def tick_def split: prod.splits sum.splits)

lemma agent_post_run:
  "agent_post pf rcd w = (r, w') \<Longrightarrow>
     fs w' = fs w \<and> env w' = env w \<and> clock w \<le> clock w'
     \<and> trace w' = trace w @ [(CreatePost rcd, r = Normal ())] \<and> (\<forall>n. r \<noteq> Exit n)"
  by (auto simp: agent_post_def tick_def split: prod.splits option.splits)

lemma submit_run:
  assumes "submit pf c b w = (r, w')"
  shows "fs w' = fs w \<and> env w' = env w \<and> clock w \<le> clock w' \<and> (\<forall>n. r \<noteq> Exit n)
     \<and> (\<exists>evs. trace w' = trace w @ evs \<and> length evs \<le> 1
          \<and> (\<forall>ev\<in>set evs. \<exists>rcd ok. ev = (CreatePost rcd, ok)
                \<and> caption_of c = Inr (post_text rcd) \<and> alt_of c = Inr (embed_alt rcd)
                \<and> embed_video rcd = b)
          \<and> (r = Normal () \<longrightarrow> (\<exists>rcd. evs = [(CreatePost rcd, True)])))"
proof (cases "caption_of c")
  case (Inl e)
  then show ?thesis using assms by (auto simp: submit_def)
next
  case cap: (Inr caption)
  show ?thesis
  proof (cases "alt_of c")
    case (Inl e)
    then show ?thesis using assms cap by (auto simp: submit_def)
  next
    case alt: (Inr a)
    let ?rcd = "\<lparr>post_text = caption, embed_type = ''app.bsky.embed.video'',
                        embed_video = b, embed_alt = a,
                        createdAt = toISOString pf (clock w)\<rparr>"
    obtain r1 w1 where p: "agent_post pf ?rcd w = (r1, w1)" by (cases "agent_post pf ?rcd w")
    note run = agent_post_run[OF p]
    have w': "w' = w1" and r: "r = Normal () \<longrightarrow> r1 = Normal ()" "\<forall>n. r \<noteq> Exit n"
      using assms cap alt p run
      by (auto simp: submit_def split: completion.splits sum.splits)
    show ?thesis
      using run w' r cap alt by auto
  qed
qed

lemma postClip_run:
  assumes "postClip pf c w = (r, w')"
  shows "fs w' = fs w \<and> env w' = env w \<and> clock w \<le> clock w' \<and> (\<forall>n. r \<noteq> Exit n)
     \<and> (\<exists>evs. trace w' = trace w @ evs
          \<and> (\<forall>ev\<in>set evs. \<not> is_write ev)
          \<and> (\<forall>d enc ok. (UploadBlob d enc, ok) \<in> set evs \<longrightarrow> enc = ''video/mp4'')
          \<and> (\<forall>rcd ok. (CreatePost rcd, ok) \<in> set evs \<longrightarrow>
                caption_of c = Inr (post_text rcd) \<and> alt_of c = Inr (embed_alt rcd))
          \<and> (r = Normal () \<longrightarrow> (\<exists>rcd. (CreatePost rcd, True) \<in> set evs)))"
proof -
  let ?u = "env w ''BLUESKY_USERNAME''" and ?p = "env w ''BLUESKY_APP_PASSWORD''"
  obtain r1 w1 where l: "agent_login pf ?u ?p w = (r1, w1)" by (cases "agent_login pf ?u ?p w")
  note lr = agent_login_run[OF l]
  show ?thesis
  proof (cases "r1 = Normal ()")
    case False
    then have "r = r1" "w' = w1" using assms l lr
      by (auto simp: postClip_def split: completion.splits)
    then show ?thesis using lr False by (auto simp: is_write_def)
  next
    case ok: True
    show ?thesis
    proof (cases "\<exists>videoPath d. video_path c = Inr videoPath \<and> fs w1 videoPath = Some (File d)")
      case False
      then have "w' = w1 \<and> r \<noteq> Normal () \<and> (\<forall>n. r \<noteq> Exit n)" using assms l ok
        by (auto simp: postClip_def existsSync_def readFileSync_def
            split: sum.splits option.splits entry.splits if_splits)
      then show ?thesis using lr by (auto simp: is_write_def)
    next
      case True
      then obtain videoPath d where v: "video_path c = Inr videoPath" "fs w1 videoPath = Some (File d)"
        by blast
      obtain r2 w2 where u: "agent_uploadBlob pf d ''video/mp4'' w1 = (r2, w2)"
        by (cases "agent_uploadBlob pf d ''video/mp4'' w1")
      note ur = agent_uploadBlob_run[OF u]
      show ?thesis
      proof (cases r2)
        case (Normal b)
        then have s: "submit pf c b w2 = (r, w')" using assms l ok v u
          by (simp add: postClip_def existsSync_def readFileSync_def)
        note sr = submit_run[OF s]
        then obtain evs where evs: "trace w' = trace w2 @ evs" "length evs \<le> 1"
          "\<forall>ev\<in>set evs. \<exists>rcd ok. ev = (CreatePost rcd, ok)
                \<and> caption_of c = Inr (post_text rcd) \<and> alt_of c = Inr (embed_alt rcd)
                \<and> embed_video rcd = b"
          "r = Normal () \<longrightarrow> (\<exists>rcd. evs = [(CreatePost rcd, True)])" by blast
        have t: "trace w' = trace w @ ([(Login ?u ?p, True), (UploadBlob d ''video/mp4'', True)] @ evs)"
          using lr ur evs(1) ok Normal by simp
        have "\<forall>ev\<in>set ([(Login ?u ?p, True), (UploadBlob d ''video/mp4'', True)] @ evs). \<not> is_write ev"
          using evs(3) by (auto simp: is_write_def)
        moreover have "\<forall>d' enc ok. (UploadBlob d' enc, ok) \<in> set ([(Login ?u ?p, True), (UploadBlob d ''video/mp4'', True)] @ evs)
            \<longrightarrow> enc = ''video/mp4''"
          using evs(3) by auto
        moreover have "\<forall>rcd ok. (CreatePost rcd, ok) \<in> set ([(Login ?u ?p, True), (UploadBlob d ''video/mp4'', True)] @ evs) \<longrightarrow>
                caption_of c = Inr (post_text rcd) \<and> alt_of c = Inr (embed_alt rcd)"
          using evs(3) by auto
        moreover have "r = Normal () \<longrightarrow> (\<exists>rcd. (CreatePost rcd, True) \<in> set ([(Login ?u ?p, True), (UploadBlob d ''video/mp4'', True)] @ evs))"
          using evs(4) by auto
        ultimately show ?thesis using t lr ur sr by (intro conjI exI[of _ "[(Login ?u ?p, True), (UploadBlob d ''video/mp4'', True)] @ evs"]) auto
      next
        case (Throw e)
        then have "r = Throw e" "w' = w2" using assms l ok v u
          by (simp_all add: postClip_def existsSync_def readFileSync_def)
        then show ?thesis using lr ur Throw by (auto simp: is_write_def)
      next
        case (Exit n)
        then show ?thesis using ur by simp
      qed
    qed
  qed
qed

lemma writeFileSync_run:
  "writeFileSync pf p d w = (r, w') \<Longrightarrow>
     env w' = env w \<and> clock w' = clock w
     \<and> trace w' = trace w @ [(WriteFile p d, r = Normal ())]
     \<and> (\<forall>q. q \<noteq> p \<longrightarrow> fs w' q = fs w q)
     \<and> (r = Normal () \<longrightarrow> fs w' p = Some (File d)) \<and> (\<forall>n. r \<noteq> Exit n)
     \<and> (fs w p \<noteq> Some Directory \<longrightarrow> (r = Normal ()) = (write_reply pf p d = Written))"
  by (auto simp: writeFileSync_def split: if_splits write_outcome.splits)

lemma load_Normal_file:
  "loadDatabase pf w = Normal db \<Longrightarrow> \<exists>d. fs w DATABASE_PATH = Some (File d) \<and> JSON_parse pf d = Some db"
  by (auto simp: loadDatabase_def existsSync_def readFileSync_def
      split: if_splits option.splits entry.splits)

lemma mark_and_save_run:
  assumes "mark_and_save pf db clip w = (r, w')"
  shows "env w' = env w \<and> clock w' = clock w \<and> (\<forall>n. r \<noteq> Exit n)
     \<and> (\<forall>q. q \<noteq> DATABASE_PATH \<longrightarrow> fs w' q = fs w q)
     \<and> (\<exists>evs. trace w' = trace w @ evs \<and> length evs \<le> 1
          \<and> (\<forall>ev\<in>set evs. \<exists>d ok. ev = (WriteFile DATABASE_PATH d, ok))
          \<and> (evs = [] \<longrightarrow> fs w' = fs w)
          \<and> (r = Normal () \<longrightarrow> evs \<noteq> []))"
proof (cases "bindE (get_prop (Some clip) ''id'') (markAsPosted pf w db)")
  case (Inl e)
  then show ?thesis using assms by (auto simp: mark_and_save_def)
next
  case (Inr db')
  then have "writeFileSync pf DATABASE_PATH (JSON_stringify pf db') w = (r, w')"
    using assms by (simp add: mark_and_save_def saveDatabase_def)
  from writeFileSync_run[OF this] show ?thesis by auto
qed

lemma main_try_cases:
  assumes "main_try pf w = (r, w')"
  shows "(w' = w \<and> (r = Normal () \<or> r = Exit 1 \<or> (\<exists>e. r = Throw e)))
    \<or> (\<exists>db clip r1 w1. loadDatabase pf w = Normal db \<and> getNextClip db = Inr clip
          \<and> truthy (Some clip) \<and> postClip pf clip w = (r1, w1)
          \<and> (if r1 = Normal () then mark_and_save pf db clip w1 = (r, w') else r = r1 \<and> w' = w1))"
proof (cases "\<not> env_set (env w ''BLUESKY_USERNAME'') \<or> \<not> env_set (env w ''BLUESKY_APP_PASSWORD'')")
  case True
  then show ?thesis using assms by (auto simp: main_try_def)
next
  case env: False
  show ?thesis
  proof (cases "loadDatabase pf w")
    case (Normal db)
    show ?thesis
    proof (cases "stats db")
      case (Inl e)
      then show ?thesis using assms env Normal by (auto simp: main_try_def)
    next
      case st: (Inr s)
      show ?thesis
      proof (cases "getNextClip db")
        case (Inl e)
        then show ?thesis using assms env Normal st by (auto simp: main_try_def)
      next
        case sel: (Inr clip)
        show ?thesis
        proof (cases "truthy (Some clip)")
          case False
          then show ?thesis using assms env Normal st sel by (auto simp: main_try_def)
        next
          case tr: True
          show ?thesis
          proof (cases "announce clip")
            case (Inl e)
            then show ?thesis using assms env Normal st sel tr by (auto simp: main_try_def)
          next
            case an: (Inr u)
            obtain r1 w1 where p: "postClip pf clip w = (r1, w1)" by (cases "postClip pf clip w")
            have "if r1 = Normal () then mark_and_save pf db clip w1 = (r, w') else r = r1 \<and> w' = w1"
              using assms env Normal st sel tr an p
              by (auto simp: main_try_def split: completion.splits)
            then show ?thesis using Normal sel tr p by blast
          qed
        qed
      qed
    qed
  next
    case (Throw e)
    then show ?thesis using assms env by (auto simp: main_try_def)
  next
    case (Exit n)
    then have "n = 1" by (auto simp: loadDatabase_def split: if_splits sum.splits option.splits)
    then show ?thesis using assms env Exit by (auto simp: main_try_def)
  qed
qed

lemma main_try_of_main:
  "main pf w = (code, w') \<Longrightarrow> \<exists>r. main_try pf w = (r, w') \<and> (code = 0 \<longrightarrow> r = Normal () \<or> r = Exit 0)"
  by (auto simp: main_def split: prod.splits completion.splits)

lemma array_find_index_Some:
  "array_find_index p xs = Inr (Some i) \<Longrightarrow> i < length xs \<and> p (xs ! i) = Inr True"
proof (induction xs arbitrary: i)
  case Nil
  then show ?case by simp
next
  case (Cons x xs)
  then show ?case
    by (cases i) (auto split: sum.splits bool.splits option.splits)
qed

lemma array_filter_total:
  "\<forall>x\<in>set xs. \<exists>b. p x = Inr b \<Longrightarrow> \<exists>ys. array_filter p xs = Inr ys"
  by (induction xs) (auto split: sum.splits)

lemma is_posted_clip: "is_Clip c \<Longrightarrow> \<exists>b. is_posted c = Inr b"
  by (simp add: is_posted_def get_prop_field is_Clip_object bindE_def)

lemma stats_Database: "is_Database db \<Longrightarrow> \<exists>s. stats db = Inr s"
proof -
  assume a: "is_Database db"
  then have "\<forall>x\<in>set (clips_of db). \<exists>b. is_posted x = Inr b"
    using is_Database_clips[of db] by (auto simp: list_all_iff is_posted_clip)
  from array_filter_total[OF this] show ?thesis
    using is_Database_clips[OF a] by (auto simp: stats_def bindE_def)
qed

lemma getNextClip_result:
  assumes "is_Database db" "getNextClip db = Inr clip"
  shows "clip = JNull \<or> (is_Clip clip \<and> clip \<in> set (clips_of db))"
proof (cases "array_find_index not_posted (clips_of db)")
  case (Inl e)
  then show ?thesis using assms by (simp add: getNextClip_Database array_find_def bindE_def)
next
  case (Inr found)
  show ?thesis
  proof (cases found)
    case None
    then show ?thesis using assms Inr by (simp add: getNextClip_Database array_find_def bindE_def)
  next
    case (Some i)
    then have "clip = clips_of db ! i" "i < length (clips_of db)"
      using assms Inr array_find_index_Some[of not_posted "clips_of db" i]
      by (simp_all add: getNextClip_Database array_find_def bindE_def)
    then show ?thesis using is_Database_clips[OF assms(1)] by (simp add: list_all_length)
  qed
qed

lemma to_string_field: "is_string v \<Longrightarrow> \<exists>s. v = Some (JStr s) \<and> to_string v = Inr s"
  by (auto simp: is_string_def to_string_def split: option.splits json.splits)

lemma announce_Clip: "is_Clip c \<Longrightarrow> announce c = Inr ()"
  using to_string_field[of "field c ''character''"] to_string_field[of "field c ''quote''"]
    to_string_field[of "field c ''filename''"]
  by (auto simp: announce_def get_prop_field is_Clip_object bindE_def is_Clip_def)

lemma markAsPosted_total:
  assumes "is_Database db"
  shows "\<exists>db'. markAsPosted pf w db clipId = Inr db'"
proof (cases "\<forall>c\<in>set (clips_of db). field c ''id'' \<noteq> clipId")
  case True
  then show ?thesis using markAsPosted_no_match[OF assms] by blast
next
  case False
  then have "\<exists>x\<in>set (clips_of db). field x ''id'' = clipId" by blast
  from split_first[OF this] obtain pre c post where
    "clips_of db = pre @ c # post" "\<forall>p\<in>set pre. field p ''id'' \<noteq> clipId" "field c ''id'' = clipId"
    by blast
  from markAsPosted_first_match[OF assms this] show ?thesis by blast
qed

lemma mark_and_save_Database:
  assumes "is_Database db" "is_Clip clip"
  shows "\<exists>db'. markAsPosted pf w db (field clip ''id'') = Inr db'
           \<and> mark_and_save pf db clip w = saveDatabase pf db' w"
  using markAsPosted_total[OF assms(1), of pf w "field clip ''id''"] assms(2)
  by (auto simp: mark_and_save_def get_prop_field is_Clip_object bindE_def)

lemma main_try_selected:
  assumes "env_set (env w ''BLUESKY_USERNAME'')" "env_set (env w ''BLUESKY_APP_PASSWORD'')"
    "loadDatabase pf w = Normal db" "is_Database db" "getNextClip db = Inr clip" "clip \<noteq> JNull"
    "postClip pf clip w = (r1, w1)"
  shows "is_Clip clip \<and> main_try pf w = (if r1 = Normal () then mark_and_save pf db clip w1 else (r1, w1))"
proof -
  have c: "is_Clip clip" using getNextClip_result[OF assms(4,5)] assms(6) by simp
  obtain s where s: "stats db = Inr s" using stats_Database[OF assms(4)] by blast
  have "truthy (Some clip)" using c by (simp add: truthy_object is_Clip_object)
  then show ?thesis
    using assms c s announce_Clip[OF c]
    by (cases r1) (auto simp: main_try_def)
qed

lemma getNextClip_first:
  assumes "is_Database db" "clips_of db = pre @ c # post"
    "\<forall>p\<in>set pre. field p ''posted'' = Some (JBool True)" "field c ''posted'' = Some (JBool False)"
  shows "getNextClip db = Inr c"
proof -
  have clips: "\<forall>c\<in>set (clips_of db). is_Clip c"
    using is_Database_clips[OF assms(1)] by (simp add: list_all_iff)
  have "\<forall>p\<in>set pre. not_posted p = Inr False"
    using assms clips by (auto simp: not_posted_clip)
  moreover have "not_posted c = Inr True"
    using assms clips by (auto simp: not_posted_clip)
  ultimately have "array_find not_posted (clips_of db) = Inr (Some c)"
    using assms(2) by (simp add: array_find_first)
  then show ?thesis by (simp add: getNextClip_Database[OF assms(1)] bindE_def)
qed

lemma main_try_env:
  "\<not> env_set (env w ''BLUESKY_USERNAME'') \<or> \<not> env_set (env w ''BLUESKY_APP_PASSWORD'')
   \<Longrightarrow> main_try pf w = (Exit 1, w)"
  by (simp add: main_try_def)



lemma main_run_events:
  assumes "main pf w = (code, w')"
  shows "new_events w w' = [] \<or> (\<exists>db clip r1 w1. loadDatabase pf w = Normal db
      \<and> getNextClip db = Inr clip \<and> postClip pf clip w = (r1, w1)
      \<and> (\<exists>e2. new_events w w' = new_events w w1 @ e2 \<and> (\<forall>ev\<in>set e2. is_write ev)
            \<and> (r1 \<noteq> Normal () \<longrightarrow> e2 = [] \<and> w' = w1 \<and> code = 1)))"
proof -
  obtain r where r1: "main_try pf w = (r, w')" using main_try_of_main[OF assms] by blast
  have r2: "main pf w = (case r of Normal u \<Rightarrow> (0, w') | Throw e \<Rightarrow> (1, w') | Exit n \<Rightarrow> (n, w'))"
    using r1 by (simp add: main_def)
  note r = r1 r2
  from main_try_cases[OF r(1)] consider (idle) "w' = w"
    | (ran) db clip r1 w1 where "loadDatabase pf w = Normal db" "getNextClip db = Inr clip"
        "truthy (Some clip)" "postClip pf clip w = (r1, w1)"
        "if r1 = Normal () then mark_and_save pf db clip w1 = (r, w') else r = r1 \<and> w' = w1"
    by blast
  then show ?thesis
  proof cases
    case idle
    then show ?thesis by (simp add: new_events_def)
  next
    case ran
    from postClip_run[OF ran(4)] obtain e1 where e1: "trace w1 = trace w @ e1" "\<forall>n. r1 \<noteq> Exit n" by blast
    show ?thesis
    proof (cases "r1 = Normal ()")
      case True
      then have "mark_and_save pf db clip w1 = (r, w')" using ran(5) by simp
      from mark_and_save_run[OF this] obtain e2 where e2: "trace w' = trace w1 @ e2"
        "\<forall>ev\<in>set e2. \<exists>d ok. ev = (WriteFile DATABASE_PATH d, ok)" by blast
      have "new_events w w' = new_events w w1 @ e2" using e1 e2 by (simp add: new_events_def)
      moreover have "\<forall>ev\<in>set e2. is_write ev" using e2(2) by (auto simp: is_write_def)
      ultimately show ?thesis using ran True by blast
    next
      case False
      then have "r = r1" "w' = w1" using ran(5) by simp_all
      moreover then have "code = 1" using r(2) assms False e1(2) by (cases r1) auto
      ultimately show ?thesis using ran False by auto
    qed
  qed
qed

lemma postClip_media_absent:
  assumes "field c ''filename'' = Some (JStr f)" "fs w (CLIPS_FOLDER @ ''/'' @ f) = None"
  shows "postClip pf c w =
     (case login_reply pf (env w ''BLUESKY_USERNAME'') (env w ''BLUESKY_APP_PASSWORD'') of
        (ms, Some e) \<Rightarrow>
          (Throw e, tick ms (Login (env w ''BLUESKY_USERNAME'') (env w ''BLUESKY_APP_PASSWORD'')) False w)
      | (ms, None) \<Rightarrow>
          (Throw (Error (''Video file not found: ./clips/'' @ f)),
           tick ms (Login (env w ''BLUESKY_USERNAME'') (env w ''BLUESKY_APP_PASSWORD'')) True w))"
proof -
  have "is_object c" using assms(1) by (cases c) (simp_all add: field_def is_object_def)
  then have v: "video_path c = Inr (CLIPS_FOLDER @ ''/'' @ f)"
    using assms(1) by (simp add: video_path_def get_prop_field bindE_def to_string_def)
  show ?thesis
    using assms(2) v
    by (auto simp: postClip_def agent_login_def tick_def existsSync_def CLIPS_FOLDER_def
        split: prod.splits option.splits)
qed

lemma main_try_publish_failed:
  assumes "loadDatabase pf w = Normal db" "getNextClip db = Inr c" "truthy (Some c)"
    "postClip pf c w = (Throw e, w1)"
  shows "main_try pf w = (Exit 1, w) \<or> (\<exists>e'. main_try pf w = (Throw e', w))
     \<or> main_try pf w = (Throw e, w1)"
proof (cases "\<not> env_set (env w ''BLUESKY_USERNAME'') \<or> \<not> env_set (env w ''BLUESKY_APP_PASSWORD'')")
  case True
  then show ?thesis by (simp add: main_try_env)
next
  case env: False
  show ?thesis
  proof (cases "stats db")
    case (Inl x)
    then show ?thesis using env assms by (simp add: main_try_def)
  next
    case st: (Inr s)
    show ?thesis
    proof (cases "announce c")
      case (Inl x)
      then show ?thesis using env assms st by (simp add: main_try_def)
    next
      case (Inr u)
      then show ?thesis using env assms st by (simp add: main_try_def)
    qed
  qed
qed

lemmas run_defs =
  main_def main_try_def env_set_def loadDatabase_def existsSync_def readFileSync_def stats_def
  getNextClip_def not_posted_def is_posted_def announce_def postClip_def agent_login_def
  agent_uploadBlob_def agent_post_def tick_def video_path_def caption_of_def alt_of_def submit_def
  mark_and_save_def markAsPosted_def has_id_def strict_equals_def with_clips_def saveDatabase_def
  writeFileSync_def array_find_def bindE_def to_string_def make_caption_def em_dash_def
  DATABASE_PATH_def CLIPS_FOLDER_def new_events_def is_write_def is_network_def

lemmas example_defs =
  ref_platform_def failing_disk_def rejecting_login_def example_world_def no_media_world_def
  world_with_def example_db_def example_db_after_def posted_clips_def banana_clip_def
  example_clip_def marked_def duplicate_db_def compact_db_def

lemmas shape_defs =
  is_Queue_def is_Database_def is_Clip_def is_object_def is_string_def is_boolean_def
  is_optional_string_def clip_ids_def clips_of_def field_def

lemma parse_example_text: "ecma_parse example_text = Some example_db"
  by code_simp

lemma iso_example: "iso_string 1730577601100 = ''2024-11-02T20:00:01.100Z''"
  by code_simp

lemma example_is_Queue: "is_Queue example_db"
  by (simp add: shape_defs example_defs)

lemma example_load: "loadDatabase ref_platform example_world = Normal example_db"
  by (simp add: run_defs ref_platform_def example_world_def world_with_def parse_example_text)

lemma example_main_code: "fst (main ref_platform example_world) = 0"
  by (simp add: run_defs example_defs parse_example_text)

lemma example_main_trace:
  "trace (snd (main ref_platform example_world)) =
     [(Login (Some ''bot.bsky.social'') (Some ''abcd-efgh''), True),
      (UploadBlob ''mp4-bytes'' ''video/mp4'', True),
      (CreatePost \<lparr>post_text = [CHR 0x22] @ ''There'' @ [CHR 0x27] @ ''s always money in the banana stand''
                      @ [CHR 0x22, CHR 0x0A, CHR 0x0A, CHR 0xE2, CHR 0x80, CHR 0x94] @ '' George Sr.'',
                    embed_type = ''app.bsky.embed.video'', embed_video = ''blob-1'',
                    embed_alt = JStr ''George Sr. tells Michael about the banana stand'', createdAt = iso_string 1730577601020\<rparr>, True),
      (WriteFile ''./clips_database.json'' (ecma_stringify example_db_after), True)]"
  by (simp add: run_defs example_defs parse_example_text iso_example)

lemma example_main_file:
  "fs (snd (main ref_platform example_world)) DATABASE_PATH = Some (File (ecma_stringify example_db_after))"
  by (simp add: run_defs example_defs parse_example_text iso_example)

lemma parse_duplicate_text: "ecma_parse duplicate_text = Some duplicate_db"
  by code_simp



lemma truncated_text:
  "take 10 (ecma_stringify example_db_after) = ''{'' @ [CHR 0x0A] @ ''  \"clips''"
  by code_simp

lemma parse_truncated: "ecma_parse (''{'' @ [CHR 0x0A] @ ''  \"clips'') = None"
  by code_simp

lemma truncated_differs:
  "''{'' @ [CHR 0x0A] @ ''  \"clips'' \<noteq> example_text
   \<and> ''{'' @ [CHR 0x0A] @ ''  \"clips'' \<noteq> ecma_stringify example_db_after"
  by code_simp

lemma example_is_Database: "is_Database example_db"
  using example_is_Queue by (simp add: is_Queue_def)

lemma example_clips: "clips_of example_db = posted_clips @ banana_clip # []"
  by (simp add: clips_of_def field_def example_db_def)

lemma example_posted: "\<forall>p\<in>set posted_clips. field p ''posted'' = Some (JBool True)"
  by (simp add: posted_clips_def example_clip_def field_def)

lemma banana_unposted: "field banana_clip ''posted'' = Some (JBool False)"
  by (simp add: banana_clip_def field_def)


lemma no_media_trace:
  "trace (snd (main ref_platform no_media_world)) =
     [(Login (Some ''bot.bsky.social'') (Some ''abcd-efgh''), True)]"
  by (simp add: run_defs example_defs parse_example_text)

lemma no_media_code: "fst (main ref_platform no_media_world) = 1"
  by (simp add: run_defs example_defs parse_example_text)

lemma no_media_postClip:
  "fst (postClip ref_platform banana_clip no_media_world)
     = Throw (Error ''Video file not found: ./clips/banana_stand_money.mp4'')"
  by (simp add: run_defs example_defs)


lemma failing_main_code: "fst (main failing_disk example_world) = 1"
  by (simp add: run_defs example_defs parse_example_text iso_example)

lemma failing_main_file:
  "fs (snd (main failing_disk example_world)) DATABASE_PATH
     = Some (File (take 10 (ecma_stringify example_db_after)))"
  by (simp add: run_defs example_defs parse_example_text iso_example)

lemma failing_disk_parse: "JSON_parse failing_disk = ecma_parse"
  by (simp add: failing_disk_def ref_platform_def)

section \<open>The claims\<close>

text \<open>
  Claim C1. For every run of \<open>main\<close>, whatever the record and the platform: the run
  writes a file at most once; a write is always preceded, in the same run, by a post
  that the remote service accepted; a run without a write leaves every file as it was;
  when the publish of the selected clip does not return normally (the login, the media
  check, the read, the upload, a template or the post failed), nothing is written and
  every file is as it was. Conversely, on a record of the declared shape, when the
  publish of the selected clip returns normally, \<open>saveDatabase\<close> is invoked exactly
  once, on the record's path, and the record holds the new text unless the disk fails
  that write.
\<close>

theorem save_only_after_publish:
  assumes "main pf w = (code, w')"
  shows "\<exists>evs. trace w' = trace w @ evs
     \<and> length (filter is_write evs) \<le> 1
     \<and> (\<forall>pre ev post. evs = pre @ ev # post \<longrightarrow> is_write ev
            \<longrightarrow> (\<exists>rcd. (CreatePost rcd, True) \<in> set pre))
     \<and> (filter is_write evs = [] \<longrightarrow> fs w' = fs w)
     \<and> ((\<forall>db clip. loadDatabase pf w = Normal db \<longrightarrow> getNextClip db = Inr clip
            \<longrightarrow> fst (postClip pf clip w) \<noteq> Normal ())
          \<longrightarrow> filter is_write evs = [] \<and> fs w' = fs w)
     \<and> (\<forall>db clip w1. env_set (env w ''BLUESKY_USERNAME'') \<and> env_set (env w ''BLUESKY_APP_PASSWORD'')
            \<and> loadDatabase pf w = Normal db \<and> is_Database db
            \<and> getNextClip db = Inr clip \<and> clip \<noteq> JNull
            \<and> postClip pf clip w = (Normal (), w1)
          \<longrightarrow> (\<exists>d. filter is_write evs
                 = [(WriteFile DATABASE_PATH d, write_reply pf DATABASE_PATH d = Written)]
               \<and> (write_reply pf DATABASE_PATH d = Written \<longrightarrow> fs w' DATABASE_PATH = Some (File d))))"
proof -
  obtain r where r: "main_try pf w = (r, w')" using main_try_of_main[OF assms] by blast
  from main_try_cases[OF r] consider (idle) "w' = w"
    | (ran) db clip r1 w1 where "loadDatabase pf w = Normal db" "getNextClip db = Inr clip"
        "truthy (Some clip)" "postClip pf clip w = (r1, w1)"
        "if r1 = Normal () then mark_and_save pf db clip w1 = (r, w') else r = r1 \<and> w' = w1"
    by blast
  then show ?thesis
  proof cases
    case idle
    moreover have False if "env_set (env w ''BLUESKY_USERNAME'')" "env_set (env w ''BLUESKY_APP_PASSWORD'')"
      "loadDatabase pf w = Normal db" "is_Database db" "getNextClip db = Inr clip" "clip \<noteq> JNull"
      "postClip pf clip w = (Normal (), w1)" for db clip w1
    proof -
      from main_try_selected[OF that] have m: "main_try pf w = mark_and_save pf db clip w1"
        and c: "is_Clip clip" by simp_all
      from mark_and_save_Database[OF that(4) c, of pf w1] obtain db' where
        "mark_and_save pf db clip w1 = saveDatabase pf db' w1" by blast
      then have "writeFileSync pf DATABASE_PATH (JSON_stringify pf db') w1 = (r, w')"
        using m r by (simp add: saveDatabase_def)
      from writeFileSync_run[OF this] postClip_run[OF that(7)] \<open>w' = w\<close>
      show False by auto
    qed
    ultimately show ?thesis by (intro exI[of _ "[]"]) auto
  next
    case ran
    note a = ran
    from postClip_run[OF a(4)] obtain e1 where e1: "fs w1 = fs w" "trace w1 = trace w @ e1"
      "\<forall>ev\<in>set e1. \<not> is_write ev" "r1 = Normal () \<longrightarrow> (\<exists>rcd. (CreatePost rcd, True) \<in> set e1)"
      by blast
    have nw: "filter is_write e1 = []" using e1(3) by (simp add: filter_empty_conv)
    show ?thesis
    proof (cases "r1 = Normal ()")
      case False
      then have "w' = w1" using a(5) by simp
      moreover have "\<not> (env_set (env w ''BLUESKY_USERNAME'') \<and> env_set (env w ''BLUESKY_APP_PASSWORD'')
            \<and> loadDatabase pf w = Normal db' \<and> is_Database db'
            \<and> getNextClip db' = Inr clip' \<and> clip' \<noteq> JNull
            \<and> postClip pf clip' w = (Normal (), w1'))" for db' clip' w1'
        using a False by auto
      moreover have "\<forall>pre ev post. e1 = pre @ ev # post \<longrightarrow> is_write ev
            \<longrightarrow> (\<exists>rcd. (CreatePost rcd, True) \<in> set pre)"
        using e1(3) by auto
      ultimately show ?thesis using e1 nw by (intro exI[of _ e1]) auto
    next
      case True
      then have ms: "mark_and_save pf db clip w1 = (r, w')" using a(5) by simp
      from mark_and_save_run[OF ms] obtain e2 where e2: "trace w' = trace w1 @ e2" "length e2 \<le> 1"
        "\<forall>ev\<in>set e2. \<exists>d ok. ev = (WriteFile DATABASE_PATH d, ok)" "e2 = [] \<longrightarrow> fs w' = fs w1"
        by blast
      have t: "trace w' = trace w @ (e1 @ e2)" using e1 e2 by simp
      have w2: "filter is_write e2 = e2" using e2(3) by (auto simp: is_write_def filter_id_conv)
      have f: "filter is_write (e1 @ e2) = e2" using nw w2 by simp
      have pre: "\<exists>rcd. (CreatePost rcd, True) \<in> set pre"
        if "e1 @ e2 = pre @ ev # post" "is_write ev" for pre ev post
      proof -
        have "ev \<in> set e2" using that e1(3) by (metis Un_iff in_set_conv_decomp set_append)
        then have "e2 = [ev]" using e2(2) by (cases e2) auto
        then have eq: "e1 @ [ev] = pre @ ev # post" using that(1) by simp
        have "pre = e1"
        proof (cases post rule: rev_cases)
          case Nil
          then show ?thesis using eq by simp
        next
          case (snoc post' l)
          then have "e1 @ [ev] = (pre @ ev # post') @ [l]" using eq by simp
          then have "e1 = pre @ ev # post'" by (simp only: append1_eq_conv)
          then show ?thesis using e1(3) that(2) by auto
        qed
        then show ?thesis using e1(4) True by simp
      qed
      have neg: "\<not> (\<forall>db clip. loadDatabase pf w = Normal db \<longrightarrow> getNextClip db = Inr clip
            \<longrightarrow> fst (postClip pf clip w) \<noteq> Normal ())"
        using a True by auto
      have pos: "\<exists>d. filter is_write (e1 @ e2)
                 = [(WriteFile DATABASE_PATH d, write_reply pf DATABASE_PATH d = Written)]
               \<and> (write_reply pf DATABASE_PATH d = Written \<longrightarrow> fs w' DATABASE_PATH = Some (File d))"
        if "is_Database db" "clip \<noteq> JNull"
      proof -
        have c: "is_Clip clip" using getNextClip_result[OF that(1) a(2)] that(2) by simp
        from mark_and_save_Database[OF that(1) c, of pf w1] obtain db' where
          "mark_and_save pf db clip w1 = saveDatabase pf db' w1" by blast
        then have wf: "writeFileSync pf DATABASE_PATH (JSON_stringify pf db') w1 = (r, w')"
          using ms by (simp add: saveDatabase_def)
        have nd: "fs w1 DATABASE_PATH \<noteq> Some Directory"
          using load_Normal_file[OF a(1)] e1(1) by auto
        from writeFileSync_run[OF wf] e2(1) nd
        have "e2 = [(WriteFile DATABASE_PATH (JSON_stringify pf db'),
                 write_reply pf DATABASE_PATH (JSON_stringify pf db') = Written)]"
          "write_reply pf DATABASE_PATH (JSON_stringify pf db') = Written
             \<longrightarrow> fs w' DATABASE_PATH = Some (File (JSON_stringify pf db'))"
          by auto
        then show ?thesis using f by auto
      qed
      have "trace w' = trace w @ (e1 @ e2)
         \<and> length (filter is_write (e1 @ e2)) \<le> 1
         \<and> (\<forall>pre ev post. e1 @ e2 = pre @ ev # post \<longrightarrow> is_write ev
            \<longrightarrow> (\<exists>rcd. (CreatePost rcd, True) \<in> set pre))
         \<and> (filter is_write (e1 @ e2) = [] \<longrightarrow> fs w' = fs w)
         \<and> ((\<forall>db clip. loadDatabase pf w = Normal db \<longrightarrow> getNextClip db = Inr clip
            \<longrightarrow> fst (postClip pf clip w) \<noteq> Normal ())
          \<longrightarrow> filter is_write (e1 @ e2) = [] \<and> fs w' = fs w)
         \<and> (\<forall>db clip w1. env_set (env w ''BLUESKY_USERNAME'') \<and> env_set (env w ''BLUESKY_APP_PASSWORD'')
            \<and> loadDatabase pf w = Normal db \<and> is_Database db
            \<and> getNextClip db = Inr clip \<and> clip \<noteq> JNull
            \<and> postClip pf clip w = (Normal (), w1)
          \<longrightarrow> (\<exists>d. filter is_write (e1 @ e2)
                 = [(WriteFile DATABASE_PATH d, write_reply pf DATABASE_PATH d = Written)]
               \<and> (write_reply pf DATABASE_PATH d = Written \<longrightarrow> fs w' DATABASE_PATH = Some (File d))))"
        using t f e2(2) e2(4) e1(1) pre neg pos a(1,2) by (intro conjI allI impI) auto
      then show ?thesis by blast
    qed
  qed
qed

text \<open>A run that publishes and saves once, and a run whose media is missing: nothing is written and the files are as they were.\<close>

theorem save_only_after_publish_witness:
  "filter is_write (trace (snd (main ref_platform example_world)))
     = [(WriteFile DATABASE_PATH (ecma_stringify example_db_after), True)]
   \<and> fst (postClip ref_platform banana_clip no_media_world)
     = Throw (Error ''Video file not found: ./clips/banana_stand_money.mp4'')
   \<and> filter is_write (trace (snd (main ref_platform no_media_world))) = []
   \<and> fs (snd (main ref_platform no_media_world)) = fs no_media_world"
proof -
  have m: "main ref_platform no_media_world
      = (fst (main ref_platform no_media_world), snd (main ref_platform no_media_world))" by simp
  have t0: "trace no_media_world = []" by (simp add: example_defs)
  have nw: "filter is_write (trace (snd (main ref_platform no_media_world))) = []"
    by (simp add: no_media_trace is_write_def)
  from save_only_after_publish[OF m] obtain evs where
    "trace (snd (main ref_platform no_media_world)) = trace no_media_world @ evs"
    "filter is_write evs = [] \<longrightarrow> fs (snd (main ref_platform no_media_world)) = fs no_media_world"
    by blast
  then have "fs (snd (main ref_platform no_media_world)) = fs no_media_world"
    using t0 nw by simp
  moreover have "filter is_write (trace (snd (main ref_platform example_world)))
     = [(WriteFile DATABASE_PATH (ecma_stringify example_db_after), True)]"
    by (simp add: example_main_trace is_write_def DATABASE_PATH_def)
  ultimately show ?thesis using nw no_media_postClip by simp
qed

text \<open>
  Claim C2. On every database of the declared shape, \<open>getNextClip\<close> (a function of the
  database alone) returns \<^verbatim>\<open>null\<close> exactly when every clip has \<^verbatim>\<open>posted\<close> true, and
  otherwise returns the first clip in the order of the record whose \<^verbatim>\<open>posted\<close> is false:
  the clip before which every clip is posted.
\<close>

theorem getNextClip_first_unposted:
  assumes "is_Database db"
  shows "(getNextClip db = Inr JNull \<longleftrightarrow> (\<forall>c\<in>set (clips_of db). field c ''posted'' = Some (JBool True)))
    \<and> (\<forall>pre c post. clips_of db = pre @ c # post
          \<longrightarrow> (\<forall>p\<in>set pre. field p ''posted'' = Some (JBool True))
          \<longrightarrow> field c ''posted'' = Some (JBool False)
          \<longrightarrow> getNextClip db = Inr c)"
proof -
  have clips: "\<forall>c\<in>set (clips_of db). is_Clip c"
    using is_Database_clips[OF assms] by (simp add: list_all_iff)
  have first: "getNextClip db = Inr c"
    if "clips_of db = pre @ c # post" "\<forall>p\<in>set pre. field p ''posted'' = Some (JBool True)"
       "field c ''posted'' = Some (JBool False)" for pre c post
  proof -
    have "\<forall>p\<in>set pre. not_posted p = Inr False"
      using that clips by (auto simp: not_posted_clip)
    moreover have "not_posted c = Inr True"
      using that clips by (auto simp: not_posted_clip)
    ultimately have "array_find not_posted (clips_of db) = Inr (Some c)"
      using that(1) by (simp add: array_find_first)
    then show ?thesis by (simp add: getNextClip_Database[OF assms] bindE_def)
  qed
  have none: "getNextClip db = Inr JNull"
    if "\<forall>c\<in>set (clips_of db). field c ''posted'' = Some (JBool True)"
  proof -
    have "\<forall>c\<in>set (clips_of db). not_posted c = Inr False"
      using that clips by (auto simp: not_posted_clip)
    then show ?thesis
      by (simp add: getNextClip_Database[OF assms] array_find_none bindE_def)
  qed
  have some: "\<forall>c\<in>set (clips_of db). field c ''posted'' = Some (JBool True)"
    if "getNextClip db = Inr JNull"
  proof (rule ccontr)
    assume "\<not> (\<forall>c\<in>set (clips_of db). field c ''posted'' = Some (JBool True))"
    then have "\<exists>x\<in>set (clips_of db). field x ''posted'' \<noteq> Some (JBool True)" by blast
    from split_first[OF this] obtain pre c post where
      d: "clips_of db = pre @ c # post" "\<forall>p\<in>set pre. \<not> field p ''posted'' \<noteq> Some (JBool True)"
         "field c ''posted'' \<noteq> Some (JBool True)" by blast
    have "is_Clip c" using clips d(1) by simp
    then have "field c ''posted'' = Some (JBool False)"
      using d(3) is_Clip_posted[of c] by auto
    then have "getNextClip db = Inr c" using first d by simp
    moreover have "c \<noteq> JNull" using \<open>is_Clip c\<close> by (auto simp: is_Clip_def is_object_def)
    ultimately show False using that by simp
  qed
  show ?thesis using first none some by blast
qed

text \<open>In the example the first two clips are posted and the third is selected.\<close>

theorem getNextClip_first_unposted_witness:
  "is_Database example_db \<and> clips_of example_db = posted_clips @ banana_clip # []
   \<and> field banana_clip ''posted'' = Some (JBool False)
   \<and> getNextClip example_db = Inr banana_clip"
  using getNextClip_first_unposted[OF example_is_Database] example_is_Database example_clips
    example_posted banana_unposted
  by blast

text \<open>
  Claim C3. A Queue is a record of the declared shape whose identifiers are distinct,
  as the data model requires. On a Queue with a first unposted clip \<open>c\<close> (every clip
  before it posted), a run that ends with status 0 leaves as the record the
  serialisation of a database in which the clips before and after \<open>c\<close> are the same, in
  the same order, \<open>c\<close> has \<^verbatim>\<open>posted\<close> true and \<^verbatim>\<open>post_date\<close> the ISO string of a time at
  or after the start of the run, every other property of \<open>c\<close> and every other property
  of the root is unchanged, and every other file is unchanged.
\<close>

theorem successful_run_marks_first_unposted:
  assumes "loadDatabase pf w = Normal db" "is_Queue db" "clips_of db = pre @ c # post"
    "\<forall>p\<in>set pre. field p ''posted'' = Some (JBool True)"
    "field c ''posted'' = Some (JBool False)"
    "main pf w = (0, w')"
  shows "\<exists>t db' c'. clock w \<le> t
     \<and> fs w' DATABASE_PATH = Some (File (JSON_stringify pf db'))
     \<and> (\<forall>q. q \<noteq> DATABASE_PATH \<longrightarrow> fs w' q = fs w q)
     \<and> clips_of db' = pre @ c' # post
     \<and> (\<forall>k. k \<noteq> ''clips'' \<longrightarrow> field db' k = field db k)
     \<and> field c' ''posted'' = Some (JBool True)
     \<and> field c' ''post_date'' = Some (JStr (toISOString pf t))
     \<and> (\<forall>k. k \<noteq> ''posted'' \<longrightarrow> k \<noteq> ''post_date'' \<longrightarrow> field c' k = field c k)"
proof -
  have D: "is_Database db" and dist: "distinct (map (\<lambda>c. field c ''id'') (clips_of db))"
    using assms(2) by (simp_all add: is_Queue_def clip_ids_def)
  have obj: "is_object db" using is_Database_clips[OF D] by simp
  have C: "is_Clip c" using is_Database_clips[OF D] assms(3) by (simp add: list_all_iff)
  then have cobj: "is_object c" by (rule is_Clip_object)
  then have nn: "c \<noteq> JNull" by (auto simp: is_object_def)
  have sel: "getNextClip db = Inr c" using getNextClip_first[OF D assms(3,4,5)] .
  obtain r where r: "main_try pf w = (r, w')" "r = Normal () \<or> r = Exit 0"
    using main_try_of_main[OF assms(6)] by auto
  have env: "env_set (env w ''BLUESKY_USERNAME'')" "env_set (env w ''BLUESKY_APP_PASSWORD'')"
    using r main_try_env[of w pf] by auto
  obtain r1 w1 where p: "postClip pf c w = (r1, w1)" by (cases "postClip pf c w")
  note pr = postClip_run[OF p]
  have m: "main_try pf w = (if r1 = Normal () then mark_and_save pf db c w1 else (r1, w1))"
    using main_try_selected[OF env assms(1) D sel nn p] by simp
  have ok: "r1 = Normal ()"
  proof (rule ccontr)
    assume "r1 \<noteq> Normal ()"
    then have "r = r1" using m r(1) by simp
    then show False using r(2) pr \<open>r1 \<noteq> Normal ()\<close> by auto
  qed
  have ids: "\<forall>p\<in>set pre. field p ''id'' \<noteq> field c ''id''"
  proof -
    have "field c ''id'' \<notin> (\<lambda>c. field c ''id'') ` set pre" using dist assms(3) by simp
    then show ?thesis by (metis imageI)
  qed
  let ?t = "clock w1"
  let ?c' = "marked (toISOString pf ?t) c"
  let ?db' = "with_clips db (pre @ ?c' # post)"
  have mk: "markAsPosted pf w1 db (field c ''id'') = Inr ?db'"
    using markAsPosted_first_match[OF D assms(3) ids] by simp
  have "mark_and_save pf db c w1 = saveDatabase pf ?db' w1"
    using mk cobj by (simp add: mark_and_save_def get_prop_field bindE_def)
  then have "writeFileSync pf DATABASE_PATH (JSON_stringify pf ?db') w1 = (r, w')"
    using m ok r(1) by (simp add: saveDatabase_def)
  note wr = writeFileSync_run[OF this]
  have rn: "r = Normal ()" using r(2) wr by auto
  have "clock w \<le> ?t" using pr by simp
  moreover have "fs w' DATABASE_PATH = Some (File (JSON_stringify pf ?db'))" using wr rn by simp
  moreover have "\<forall>q. q \<noteq> DATABASE_PATH \<longrightarrow> fs w' q = fs w q" using wr pr by simp
  moreover have "clips_of ?db' = pre @ ?c' # post" using obj by (rule clips_of_with_clips)
  moreover have "\<forall>k. k \<noteq> ''clips'' \<longrightarrow> field ?db' k = field db k" by (simp add: field_with_clips)
  moreover have "field ?c' ''posted'' = Some (JBool True)"
    "field ?c' ''post_date'' = Some (JStr (toISOString pf ?t))"
    "\<forall>k. k \<noteq> ''posted'' \<longrightarrow> k \<noteq> ''post_date'' \<longrightarrow> field ?c' k = field c k"
    using cobj by (simp_all add: marked_fields)
  ultimately show ?thesis by blast
qed

text \<open>The example run: the third clip is marked and the record rewritten.\<close>

theorem successful_run_marks_first_unposted_witness:
  "loadDatabase ref_platform example_world = Normal example_db \<and> is_Queue example_db
   \<and> clips_of example_db = posted_clips @ banana_clip # []
   \<and> field banana_clip ''posted'' = Some (JBool False)
   \<and> fst (main ref_platform example_world) = 0
   \<and> (\<exists>t db' c'. clock example_world \<le> t
     \<and> fs (snd (main ref_platform example_world)) DATABASE_PATH = Some (File (JSON_stringify ref_platform db'))
     \<and> (\<forall>q. q \<noteq> DATABASE_PATH \<longrightarrow> fs (snd (main ref_platform example_world)) q = fs example_world q)
     \<and> clips_of db' = posted_clips @ c' # []
     \<and> (\<forall>k. k \<noteq> ''clips'' \<longrightarrow> field db' k = field example_db k)
     \<and> field c' ''posted'' = Some (JBool True)
     \<and> field c' ''post_date'' = Some (JStr (toISOString ref_platform t))
     \<and> (\<forall>k. k \<noteq> ''posted'' \<longrightarrow> k \<noteq> ''post_date'' \<longrightarrow> field c' k = field banana_clip k))"
proof -
  have m: "main ref_platform example_world = (0, snd (main ref_platform example_world))"
    using example_main_code by (simp add: prod_eq_iff)
  from successful_run_marks_first_unposted[OF example_load example_is_Queue example_clips
      example_posted banana_unposted m]
  show ?thesis
    using example_load example_is_Queue example_clips banana_unposted example_main_code by blast
qed



text \<open>
  Claim C5, amended. \<open>loadDatabase\<close> ends the process with status 1 when nothing is at
  the path of the record; it throws when the path is a directory, and throws a
  SyntaxError when \<^verbatim>\<open>JSON.parse\<close> rejects the text; on every text that \<^verbatim>\<open>JSON.parse\<close>
  accepts it succeeds and returns the parsed value as it is, whatever its shape and
  whether or not identifiers repeat. The code has no check of the shape and none of
  the identifiers.
\<close>

theorem loadDatabase_outcomes:
  "(fs w DATABASE_PATH = None \<longrightarrow> loadDatabase pf w = Exit 1)
   \<and> (fs w DATABASE_PATH = Some Directory \<longrightarrow> loadDatabase pf w = Throw (SystemError ''EISDIR''))
   \<and> (\<forall>d. fs w DATABASE_PATH = Some (File d) \<longrightarrow> JSON_parse pf d = None
         \<longrightarrow> loadDatabase pf w = Throw SyntaxError)
   \<and> (\<forall>d v. fs w DATABASE_PATH = Some (File d) \<longrightarrow> JSON_parse pf d = Some v
         \<longrightarrow> loadDatabase pf w = Normal v)"
  by (simp add: loadDatabase_def existsSync_def readFileSync_def)

text \<open>The example record loads; with no file the process exits with status 1.\<close>

theorem loadDatabase_outcomes_witness:
  "fs example_world DATABASE_PATH = Some (File example_text)
   \<and> JSON_parse ref_platform example_text = Some example_db
   \<and> loadDatabase ref_platform example_world = Normal example_db
   \<and> fs (example_world\<lparr>fs := Map.empty\<rparr>) DATABASE_PATH = None
   \<and> loadDatabase ref_platform (example_world\<lparr>fs := Map.empty\<rparr>) = Exit 1"
proof -
  have a: "fs example_world DATABASE_PATH = Some (File example_text)"
    by (simp add: example_defs DATABASE_PATH_def)
  have b: "JSON_parse ref_platform example_text = Some example_db"
    by (simp add: ref_platform_def parse_example_text)
  have c: "fs (example_world\<lparr>fs := Map.empty\<rparr>) DATABASE_PATH = None" by simp
  from loadDatabase_outcomes[of example_world ref_platform]
    loadDatabase_outcomes[of "example_world\<lparr>fs := Map.empty\<rparr>" ref_platform]
  show ?thesis using a b c by blast
qed

text \<open>A record whose two clips share an identifier and lack the required fields loads without error.\<close>

theorem load_accepts_duplicates_counterexample:
  "loadDatabase ref_platform (world_with duplicate_text) = Normal duplicate_db
   \<and> \<not> distinct (clip_ids duplicate_db) \<and> \<not> is_Database duplicate_db"
  by (simp add: run_defs shape_defs example_defs parse_duplicate_text)




text \<open>
  Claim C7, amended. \<open>saveDatabase\<close> makes one call of \<^verbatim>\<open>writeFileSync\<close> on the path of
  the record, in place, and changes no other file. When the write completes, the
  record is the whole new text. When the write is refused before the file is opened,
  the record is as it was, and so is the next load. When the write is interrupted
  after \<open>k\<close> bytes, the call throws and the record holds the first \<open>k\<close> bytes of the new
  text, whatever \<open>k\<close> is; the next load reads exactly those bytes, and succeeds or throws
  a SyntaxError as \<^verbatim>\<open>JSON.parse\<close> decides on them.
\<close>

theorem saveDatabase_outcomes:
  assumes "fs w DATABASE_PATH \<noteq> Some Directory" "saveDatabase pf db w = (r, w')"
  shows "(write_reply pf DATABASE_PATH (JSON_stringify pf db) = Written
          \<longrightarrow> r = Normal () \<and> fs w' DATABASE_PATH = Some (File (JSON_stringify pf db)))
    \<and> (write_reply pf DATABASE_PATH (JSON_stringify pf db) = Refused
          \<longrightarrow> r = Throw (SystemError ''EACCES'') \<and> fs w' = fs w
            \<and> loadDatabase pf w' = loadDatabase pf w)
    \<and> (\<forall>k. write_reply pf DATABASE_PATH (JSON_stringify pf db) = Interrupted k
          \<longrightarrow> r = Throw (SystemError ''EIO'')
            \<and> fs w' DATABASE_PATH = Some (File (take k (JSON_stringify pf db)))
            \<and> loadDatabase pf w' =
                (case JSON_parse pf (take k (JSON_stringify pf db)) of
                   None \<Rightarrow> Throw SyntaxError
                 | Some v \<Rightarrow> Normal v))
    \<and> (\<forall>q. q \<noteq> DATABASE_PATH \<longrightarrow> fs w' q = fs w q)
    \<and> new_events w w' = [(WriteFile DATABASE_PATH (JSON_stringify pf db), r = Normal ())]"
  using assms
  by (auto simp: saveDatabase_def writeFileSync_def new_events_def loadDatabase_def existsSync_def
      readFileSync_def split: write_outcome.splits)

text \<open>A completed write and a write interrupted after ten bytes.\<close>

theorem saveDatabase_outcomes_witness:
  "fs example_world DATABASE_PATH \<noteq> Some Directory
   \<and> write_reply ref_platform DATABASE_PATH (JSON_stringify ref_platform example_db_after) = Written
   \<and> fst (saveDatabase ref_platform example_db_after example_world) = Normal ()
   \<and> fs (snd (saveDatabase ref_platform example_db_after example_world)) DATABASE_PATH
       = Some (File (JSON_stringify ref_platform example_db_after))
   \<and> write_reply failing_disk DATABASE_PATH (JSON_stringify failing_disk example_db_after) = Interrupted 10
   \<and> fst (saveDatabase failing_disk example_db_after example_world) = Throw (SystemError ''EIO'')
   \<and> fs (snd (saveDatabase failing_disk example_db_after example_world)) DATABASE_PATH
       = Some (File (take 10 (JSON_stringify failing_disk example_db_after)))"
proof -
  have a: "fs example_world DATABASE_PATH \<noteq> Some Directory"
    by (simp add: example_defs DATABASE_PATH_def)
  have b: "write_reply ref_platform DATABASE_PATH (JSON_stringify ref_platform example_db_after) = Written"
    by (simp add: ref_platform_def)
  have c: "write_reply failing_disk DATABASE_PATH (JSON_stringify failing_disk example_db_after) = Interrupted 10"
    by (simp add: failing_disk_def)
  have p: "saveDatabase pf example_db_after example_world
      = (fst (saveDatabase pf example_db_after example_world),
         snd (saveDatabase pf example_db_after example_world))" for pf by simp
  from saveDatabase_outcomes[OF a p[of ref_platform]] saveDatabase_outcomes[OF a p[of failing_disk]]
  show ?thesis using a b c by blast
qed

text \<open>The publish succeeds and the write is interrupted after ten bytes: the run fails, the record holds ten bytes of the new text, and the next load throws a SyntaxError.\<close>

theorem interrupted_save_counterexample:
  "fst (main failing_disk example_world) = 1
   \<and> fs example_world DATABASE_PATH = Some (File example_text)
   \<and> fs (snd (main failing_disk example_world)) DATABASE_PATH
       = Some (File (''{'' @ [CHR 0x0A] @ ''  \"clips''))
   \<and> ''{'' @ [CHR 0x0A] @ ''  \"clips'' \<noteq> example_text
   \<and> ''{'' @ [CHR 0x0A] @ ''  \"clips'' \<noteq> ecma_stringify example_db_after
   \<and> loadDatabase failing_disk (snd (main failing_disk example_world)) = Throw SyntaxError"
proof -
  have a: "fs example_world DATABASE_PATH = Some (File example_text)"
    by (simp add: example_world_def world_with_def DATABASE_PATH_def)
  have f: "fs (snd (main failing_disk example_world)) DATABASE_PATH
       = Some (File (''{'' @ [CHR 0x0A] @ ''  \"clips''))"
    using failing_main_file truncated_text by simp
  have l: "loadDatabase failing_disk (snd (main failing_disk example_world)) = Throw SyntaxError"
    using parse_truncated
    by (simp add: loadDatabase_def existsSync_def readFileSync_def f failing_disk_parse)
  show ?thesis using failing_main_code a f l truncated_differs by blast
qed

text \<open>
  Claim C8, amended. When the file of the clip's \<^verbatim>\<open>filename\<close> is absent from the clips
  folder, \<open>postClip\<close> makes no upload and submits no post, and changes no file; when the
  login succeeds it throws \<^verbatim>\<open>Video file not found\<close> with the path, after the login
  alone; when the login is rejected it throws the login's error instead (the login
  comes first, so the media is never looked at). A run of \<open>main\<close> that selects such a
  clip ends with status 1, makes no upload, post or write, and leaves every file as it was.
\<close>

theorem media_absent_fails_fast:
  assumes "field c ''filename'' = Some (JStr f)" "fs w (CLIPS_FOLDER @ ''/'' @ f) = None"
    "postClip pf c w = (r, w')"
  shows "(\<forall>ev\<in>set (new_events w w'). \<not> is_network ev) \<and> fs w' = fs w
    \<and> (snd (login_reply pf (env w ''BLUESKY_USERNAME'') (env w ''BLUESKY_APP_PASSWORD'')) = None
        \<longrightarrow> r = Throw (Error (''Video file not found: ./clips/'' @ f))
          \<and> new_events w w' = [(Login (env w ''BLUESKY_USERNAME'') (env w ''BLUESKY_APP_PASSWORD''), True)])
    \<and> (\<forall>e. snd (login_reply pf (env w ''BLUESKY_USERNAME'') (env w ''BLUESKY_APP_PASSWORD'')) = Some e
        \<longrightarrow> r = Throw e
          \<and> new_events w w' = [(Login (env w ''BLUESKY_USERNAME'') (env w ''BLUESKY_APP_PASSWORD''), False)])
    \<and> (\<forall>db code w2. loadDatabase pf w = Normal db \<longrightarrow> getNextClip db = Inr c \<longrightarrow> main pf w = (code, w2)
        \<longrightarrow> code = 1 \<and> fs w2 = fs w
          \<and> (\<forall>ev\<in>set (new_events w w2). \<not> is_network ev \<and> \<not> is_write ev))"
proof -
  let ?u = "env w ''BLUESKY_USERNAME''" and ?p = "env w ''BLUESKY_APP_PASSWORD''"
  obtain ms lr where l: "login_reply pf ?u ?p = (ms, lr)" by (cases "login_reply pf ?u ?p")
  note pm = postClip_media_absent[OF assms(1,2), of pf]
  have ev: "new_events w w' = [(Login ?u ?p, lr = None)] \<and> fs w' = fs w
      \<and> r = (case lr of None \<Rightarrow> Throw (Error (''Video file not found: ./clips/'' @ f)) | Some e \<Rightarrow> Throw e)"
  proof (cases lr)
    case None
    then have "(r, w') = (Throw (Error (''Video file not found: ./clips/'' @ f)), tick ms (Login ?u ?p) True w)"
      using pm assms(3) l by simp
    then show ?thesis using None by (simp add: new_events_def tick_def)
  next
    case (Some e)
    then have "(r, w') = (Throw e, tick ms (Login ?u ?p) False w)"
      using pm assms(3) l by simp
    then show ?thesis using Some by (simp add: new_events_def tick_def)
  qed
  have a: "\<forall>ev\<in>set (new_events w w'). \<not> is_network ev \<and> \<not> is_write ev"
    using ev by (simp add: is_network_def is_write_def)
  have b: "snd (login_reply pf ?u ?p) = None
        \<longrightarrow> r = Throw (Error (''Video file not found: ./clips/'' @ f))
          \<and> new_events w w' = [(Login ?u ?p, True)]"
    using l ev by auto
  have c: "\<forall>e. snd (login_reply pf ?u ?p) = Some e
        \<longrightarrow> r = Throw e \<and> new_events w w' = [(Login ?u ?p, False)]"
    using l ev by auto
  have d: "code = 1 \<and> fs w2 = fs w \<and> (\<forall>ev\<in>set (new_events w w2). \<not> is_network ev \<and> \<not> is_write ev)"
    if "loadDatabase pf w = Normal db" "getNextClip db = Inr c" "main pf w = (code, w2)" for db code w2
  proof -
    have t: "truthy (Some c)" using assms(1) by (cases c) (simp_all add: field_def)
    obtain e where e: "postClip pf c w = (Throw e, w')" using assms(3) ev by (cases lr) auto
    from main_try_publish_failed[OF that(1,2) t e]
    have "(code = 1 \<and> w2 = w) \<or> (code = 1 \<and> w2 = w')"
      using that(3) by (auto simp: main_def)
    then show ?thesis using a ev by (auto simp: new_events_def)
  qed
  show ?thesis using a ev b c d by blast
qed

text \<open>The example without its video: the login succeeds, the publish throws, the run ends with status 1.\<close>

theorem media_absent_fails_fast_witness:
  "field banana_clip ''filename'' = Some (JStr ''banana_stand_money.mp4'')
   \<and> fs no_media_world (CLIPS_FOLDER @ ''/'' @ ''banana_stand_money.mp4'') = None
   \<and> snd (login_reply ref_platform (env no_media_world ''BLUESKY_USERNAME'')
             (env no_media_world ''BLUESKY_APP_PASSWORD'')) = None
   \<and> loadDatabase ref_platform no_media_world = Normal example_db
   \<and> getNextClip example_db = Inr banana_clip
   \<and> fst (postClip ref_platform banana_clip no_media_world)
       = Throw (Error (''Video file not found: ./clips/'' @ ''banana_stand_money.mp4''))
   \<and> new_events no_media_world (snd (postClip ref_platform banana_clip no_media_world))
       = [(Login (env no_media_world ''BLUESKY_USERNAME'') (env no_media_world ''BLUESKY_APP_PASSWORD''), True)]
   \<and> fst (main ref_platform no_media_world) = 1
   \<and> fs (snd (main ref_platform no_media_world)) = fs no_media_world"
proof -
  have a: "field banana_clip ''filename'' = Some (JStr ''banana_stand_money.mp4'')"
    by (simp add: banana_clip_def field_def)
  have b: "fs no_media_world (CLIPS_FOLDER @ ''/'' @ ''banana_stand_money.mp4'') = None"
    by (simp add: example_defs CLIPS_FOLDER_def)
  have c: "snd (login_reply ref_platform (env no_media_world ''BLUESKY_USERNAME'')
             (env no_media_world ''BLUESKY_APP_PASSWORD'')) = None"
    by (simp add: ref_platform_def)
  have d: "loadDatabase ref_platform no_media_world = Normal example_db"
    by (simp add: run_defs ref_platform_def example_world_def no_media_world_def world_with_def
        parse_example_text)
  have e: "getNextClip example_db = Inr banana_clip"
    using getNextClip_first[OF example_is_Database example_clips example_posted banana_unposted] .
  have p: "postClip ref_platform banana_clip no_media_world
      = (fst (postClip ref_platform banana_clip no_media_world),
         snd (postClip ref_platform banana_clip no_media_world))" by simp
  have m: "main ref_platform no_media_world
      = (fst (main ref_platform no_media_world), snd (main ref_platform no_media_world))" by simp
  from media_absent_fails_fast[OF a b p] show ?thesis using a b c d e m by blast
qed

text \<open>The video is absent and the login is rejected: the publish fails with the error of the login, not with the missing video.\<close>

theorem login_rejected_counterexample:
  "field banana_clip ''filename'' = Some (JStr ''banana_stand_money.mp4'')
   \<and> fs no_media_world ''./clips/banana_stand_money.mp4'' = None
   \<and> fst (postClip rejecting_login banana_clip no_media_world)
       = Throw (RemoteError ''Invalid identifier or password'')
   \<and> fst (main rejecting_login no_media_world) = 1
   \<and> trace (snd (main rejecting_login no_media_world))
       = [(Login (Some ''bot.bsky.social'') (Some ''abcd-efgh''), False)]"
  by (simp add: run_defs shape_defs example_defs parse_example_text)

text \<open>
  Claim C9. On a database of the declared shape, \<open>markAsPosted\<close> with an identifier that
  no clip has returns the database unchanged and throws nothing; with an identifier
  that some clip has, it changes only the first clip with that identifier, setting
  \<^verbatim>\<open>posted\<close> to true and \<^verbatim>\<open>post_date\<close> to the ISO string of the current time: the clips
  before and after it, its other properties and the other properties of the root are
  unchanged.
\<close>

theorem markAsPosted_frame:
  assumes "is_Database db"
  shows "((\<forall>c\<in>set (clips_of db). field c ''id'' \<noteq> clipId) \<longrightarrow> markAsPosted pf w db clipId = Inr db)
    \<and> (\<forall>pre c post. clips_of db = pre @ c # post
          \<longrightarrow> (\<forall>p\<in>set pre. field p ''id'' \<noteq> clipId)
          \<longrightarrow> field c ''id'' = clipId
          \<longrightarrow> (\<exists>db' c'. markAsPosted pf w db clipId = Inr db'
                 \<and> clips_of db' = pre @ c' # post
                 \<and> (\<forall>k. k \<noteq> ''clips'' \<longrightarrow> field db' k = field db k)
                 \<and> field c' ''posted'' = Some (JBool True)
                 \<and> field c' ''post_date'' = Some (JStr (toISOString pf (clock w)))
                 \<and> (\<forall>k. k \<noteq> ''posted'' \<longrightarrow> k \<noteq> ''post_date'' \<longrightarrow> field c' k = field c k)))"
proof (intro conjI allI impI)
  assume "\<forall>c\<in>set (clips_of db). field c ''id'' \<noteq> clipId"
  then show "markAsPosted pf w db clipId = Inr db"
    using assms by (rule markAsPosted_no_match[rotated])
next
  fix pre c post
  assume a: "clips_of db = pre @ c # post" "\<forall>p\<in>set pre. field p ''id'' \<noteq> clipId"
    "field c ''id'' = clipId"
  let ?c' = "marked (toISOString pf (clock w)) c"
  let ?db' = "with_clips db (pre @ ?c' # post)"
  have obj: "is_object db" using is_Database_clips[OF assms] by simp
  have "is_Clip c" using is_Database_clips[OF assms] a(1) by (simp add: list_all_iff)
  then have c: "is_object c" by (rule is_Clip_object)
  have "markAsPosted pf w db clipId = Inr ?db'"
    using markAsPosted_first_match[OF assms a] .
  moreover have "clips_of ?db' = pre @ ?c' # post"
    using obj by (rule clips_of_with_clips)
  moreover have "\<forall>k. k \<noteq> ''clips'' \<longrightarrow> field ?db' k = field db k"
    by (simp add: field_with_clips)
  moreover have "field ?c' ''posted'' = Some (JBool True)"
    "field ?c' ''post_date'' = Some (JStr (toISOString pf (clock w)))"
    "\<forall>k. k \<noteq> ''posted'' \<longrightarrow> k \<noteq> ''post_date'' \<longrightarrow> field ?c' k = field c k"
    using c by (simp_all add: marked_fields)
  ultimately show "\<exists>db' c'. markAsPosted pf w db clipId = Inr db'
                 \<and> clips_of db' = pre @ c' # post
                 \<and> (\<forall>k. k \<noteq> ''clips'' \<longrightarrow> field db' k = field db k)
                 \<and> field c' ''posted'' = Some (JBool True)
                 \<and> field c' ''post_date'' = Some (JStr (toISOString pf (clock w)))
                 \<and> (\<forall>k. k \<noteq> ''posted'' \<longrightarrow> k \<noteq> ''post_date'' \<longrightarrow> field c' k = field c k)"
    by blast
qed

text \<open>An identifier that no clip has, and the identifier of the third clip.\<close>

theorem markAsPosted_frame_witness:
  "is_Database example_db
   \<and> markAsPosted ref_platform example_world example_db (Some (JStr ''no_such_clip'')) = Inr example_db
   \<and> (\<exists>db' c'. markAsPosted ref_platform example_world example_db (Some (JStr ''ad_s01e01_003'')) = Inr db'
        \<and> clips_of db' = posted_clips @ c' # []
        \<and> (\<forall>k. k \<noteq> ''clips'' \<longrightarrow> field db' k = field example_db k)
        \<and> field c' ''posted'' = Some (JBool True)
        \<and> field c' ''post_date'' = Some (JStr (toISOString ref_platform (clock example_world)))
        \<and> (\<forall>k. k \<noteq> ''posted'' \<longrightarrow> k \<noteq> ''post_date'' \<longrightarrow> field c' k = field banana_clip k))"
proof -
  have n: "\<forall>c\<in>set (clips_of example_db). field c ''id'' \<noteq> Some (JStr ''no_such_clip'')"
    by (simp add: clips_of_def field_def example_defs)
  have pre: "\<forall>p\<in>set posted_clips. field p ''id'' \<noteq> Some (JStr ''ad_s01e01_003'')"
    by (simp add: field_def example_defs)
  have i: "field banana_clip ''id'' = Some (JStr ''ad_s01e01_003'')"
    by (simp add: banana_clip_def field_def)
  from markAsPosted_frame[OF example_is_Database, of "Some (JStr ''no_such_clip'')" ref_platform example_world]
    markAsPosted_frame[OF example_is_Database, of "Some (JStr ''ad_s01e01_003'')" ref_platform example_world]
  show ?thesis using example_is_Database n pre i example_clips by blast
qed

text \<open>
  Claim C10. Every upload that \<open>postClip\<close> makes, and so every upload of a run of
  \<open>main\<close>, declares the encoding \<^verbatim>\<open>video/mp4\<close>, whatever the clip, its filename and the
  bytes of the file.
\<close>

theorem upload_declares_video_mp4:
  "(\<forall>d enc ok. (UploadBlob d enc, ok) \<in> set (new_events w (snd (postClip pf clip w))) \<longrightarrow> enc = ''video/mp4'')
   \<and> (\<forall>d enc ok. (UploadBlob d enc, ok) \<in> set (new_events w (snd (main pf w))) \<longrightarrow> enc = ''video/mp4'')"
proof -
  have P: "enc = ''video/mp4''" if "(UploadBlob d enc, ok) \<in> set (new_events w (snd (postClip pf c w)))"
    for c d enc ok
  proof -
    obtain r w' where p: "postClip pf c w = (r, w')" by (cases "postClip pf c w")
    from postClip_run[OF p] obtain evs where "trace w' = trace w @ evs"
      "\<forall>d enc ok. (UploadBlob d enc, ok) \<in> set evs \<longrightarrow> enc = ''video/mp4''" by blast
    then show ?thesis using that p by (auto simp: new_events_def)
  qed
  have "enc = ''video/mp4''" if a: "(UploadBlob d enc, ok) \<in> set (new_events w (snd (main pf w)))"
    for d enc ok
  proof -
    obtain code w' where m: "main pf w = (code, w')" by (cases "main pf w")
    have ne: "new_events w w' \<noteq> []" using a m by auto
    from main_run_events[OF m] ne obtain clip r1 w1 e2 where
      c: "postClip pf clip w = (r1, w1)" "new_events w w' = new_events w w1 @ e2" "\<forall>ev\<in>set e2. is_write ev"
      by blast
    have "(UploadBlob d enc, ok) \<in> set (new_events w w1) \<or> (UploadBlob d enc, ok) \<in> set e2"
      using a m c(2) by simp
    moreover have "(UploadBlob d enc, ok) \<notin> set e2"
      using c(3) by (auto simp: is_write_def)
    ultimately have "(UploadBlob d enc, ok) \<in> set (new_events w (snd (postClip pf clip w)))"
      using c(1) by simp
    then show ?thesis by (rule P)
  qed
  then show ?thesis using P by blast
qed

text \<open>The upload of the example run.\<close>

theorem upload_declares_video_mp4_witness:
  "(UploadBlob ''mp4-bytes'' ''video/mp4'', True)
     \<in> set (new_events example_world (snd (main ref_platform example_world)))
   \<and> (\<exists>d enc ok. (UploadBlob d enc, ok) \<in> set (new_events example_world (snd (main ref_platform example_world)))
        \<and> enc = ''video/mp4'')"
proof -
  have t0: "trace example_world = []" by (simp add: example_world_def world_with_def)
  have "(UploadBlob ''mp4-bytes'' ''video/mp4'', True)
     \<in> set (new_events example_world (snd (main ref_platform example_world)))"
    by (simp add: new_events_def example_main_trace t0)
  then show ?thesis using upload_declares_video_mp4[of example_world ref_platform banana_clip] by blast
qed

end
